theory Spec2Isabelle
  imports Complex_Main
begin

section \<open>TextBox: abstract generators and the T5 sequence-to-sequence model\<close>

text \<open>
  A shallow embedding of \<^verbatim>\<open>textbox/model/abstract_generator.py\<close> and
  \<^verbatim>\<open>textbox/model/Seq2Seq/t5.py\<close>.

  Conventions of the embedding.
  \<^item> A Python exception is a value of \<open>py_error\<close>; a method that may raise returns
    \<open>py_error + 'a\<close>, with \<open>Inl\<close> for the exception.
  \<^item> An object is a record of its attributes. An attribute that may be absent
    (\<^verbatim>\<open>hasattr\<close>) is an \<open>option\<close>; reading an absent one raises \<open>AttributeError\<close>.
  \<^item> The pretrained-model library is not part of the repository. Its objects (tokenizer,
    network) are records of their methods, and its loaders are the fields of the record
    \<open>transformers\<close>. A theorem that needs a contract of the library (the shape of a
    result, say) states it as a hypothesis.
  \<^item> An integer tensor of shape \<open>(B, L)\<close> is the list of its \<open>B\<close> rows. A tensor of
    logits of shape \<open>(B, T, V)\<close> is a list of \<open>B\<close> rows of \<open>T\<close> vectors, the type of a
    vector being a parameter. \<^verbatim>\<open>.to(device)\<close> and \<^verbatim>\<open>.contiguous()\<close> do not change the
    values of a tensor and are left out.
  \<^item> Finite floating-point values are idealised as real numbers (no rounding, no
    overflow); the non-finite results of a division by zero are kept apart, see \<open>tfloat\<close>.
  \<^item> The texts that the code only compares, concatenates and hands to the tokenizer
    (task type, prefix, words of a source text) are HOL strings. A string that the
    tokenizer decodes, whose characters the code inspects through \<^verbatim>\<open>str.lower\<close> and
    \<^verbatim>\<open>str.split\<close>, is a list of Unicode code points.
\<close>

subsection \<open>Exceptions\<close>

datatype py_error =
    NotImplementedError
  | AttributeError
  | RuntimeError
  | ValueError
  | OSError

subsection \<open>Configuration, dataset, batches\<close>

text \<open>A decoded string: the list of its Unicode code points.\<close>

type_synonym pystr = "nat list"

text \<open>The keys of \<^verbatim>\<open>config\<close> that the two modules read.\<close>

record config =
  train_batch_size :: nat
  device :: string
  source_max_seq_length :: nat
  target_max_seq_length :: nat
  pretrained_model_path :: string
  task_type :: string

text \<open>The attributes of \<^verbatim>\<open>dataset\<close> that the constructors read; \<open>None\<close> is an attribute
  the dataset object does not have.\<close>

record 'v dataset =
  source_idx2token :: "'v list option"
  target_idx2token :: "'v list option"
  idx2token :: "'v list option"

text \<open>A batch (\<^verbatim>\<open>corpus\<close>, \<^verbatim>\<open>batch_data\<close>): each text is a list of words.\<close>

record corpus =
  source_text :: "string list list"
  target_text :: "string list list"

subsection \<open>abstract\_generator.py\<close>

text \<open>\<^verbatim>\<open>AbstractModel\<close>: the three methods only raise.\<close>

definition AbstractModel_calculate_loss :: "'self \<Rightarrow> 'corpus \<Rightarrow> py_error + 'r" where
  "AbstractModel_calculate_loss self corpus = Inl NotImplementedError"

definition AbstractModel_generate :: "'self \<Rightarrow> 'corpus \<Rightarrow> py_error + 'r" where
  "AbstractModel_generate self corpus = Inl NotImplementedError"

definition AbstractModel_calculate_nll_test :: "'self \<Rightarrow> 'corpus \<Rightarrow> py_error + 'r" where
  "AbstractModel_calculate_nll_test self eval_data = Inl NotImplementedError"

text \<open>The attributes the base constructors may set; \<open>None\<close> is an attribute left unset.\<close>

record generator =
  vocab_size :: "nat option"
  source_vocab_size :: "nat option"
  target_vocab_size :: "nat option"
  batch_size :: nat
  self_device :: string

text \<open>\<^verbatim>\<open>getattr\<close> of an attribute that may be absent.\<close>

definition getattr :: "'a option \<Rightarrow> py_error + 'a" where
  "getattr a = (case a of None \<Rightarrow> Inl AttributeError | Some v \<Rightarrow> Inr v)"

definition UnconditionalGenerator_init :: "config \<Rightarrow> 'v dataset \<Rightarrow> py_error + generator" where
  "UnconditionalGenerator_init cfg ds =
     (case getattr (idx2token ds) of
        Inl e \<Rightarrow> Inl e
      | Inr i2t \<Rightarrow>
          Inr \<lparr> vocab_size = Some (length i2t),
                source_vocab_size = None,
                target_vocab_size = None,
                batch_size = train_batch_size cfg,
                self_device = device cfg \<rparr>)"

definition Seq2SeqGenerator_init :: "config \<Rightarrow> 'v dataset \<Rightarrow> py_error + generator" where
  "Seq2SeqGenerator_init cfg ds =
     (if source_idx2token ds \<noteq> None then
        (case getattr (source_idx2token ds) of
           Inl e \<Rightarrow> Inl e
         | Inr s \<Rightarrow>
             (case getattr (target_idx2token ds) of
                Inl e \<Rightarrow> Inl e
              | Inr t \<Rightarrow>
                  Inr \<lparr> vocab_size = None,
                        source_vocab_size = Some (length s),
                        target_vocab_size = Some (length t),
                        batch_size = train_batch_size cfg,
                        self_device = device cfg \<rparr>))
      else
        (case getattr (idx2token ds) of
           Inl e \<Rightarrow> Inl e
         | Inr i2t \<Rightarrow>
             Inr \<lparr> vocab_size = Some (length i2t),
                   source_vocab_size = None,
                   target_vocab_size = None,
                   batch_size = train_batch_size cfg,
                   self_device = device cfg \<rparr>))"

text \<open>\<^verbatim>\<open>GenerativeAdversarialNet\<close>: the constructor delegates, the four methods only raise.\<close>

definition GenerativeAdversarialNet_init :: "config \<Rightarrow> 'v dataset \<Rightarrow> py_error + generator" where
  "GenerativeAdversarialNet_init cfg ds = UnconditionalGenerator_init cfg ds"

definition GenerativeAdversarialNet_calculate_g_train_loss ::
    "'self \<Rightarrow> 'corpus \<Rightarrow> py_error + 'r" where
  "GenerativeAdversarialNet_calculate_g_train_loss self corpus = Inl NotImplementedError"

definition GenerativeAdversarialNet_calculate_d_train_loss ::
    "'self \<Rightarrow> 't \<Rightarrow> 't \<Rightarrow> py_error + 'r" where
  "GenerativeAdversarialNet_calculate_d_train_loss self real_data fake_data =
     Inl NotImplementedError"

definition GenerativeAdversarialNet_calculate_g_adversarial_loss ::
    "'self \<Rightarrow> py_error + 'r" where
  "GenerativeAdversarialNet_calculate_g_adversarial_loss self = Inl NotImplementedError"

definition GenerativeAdversarialNet_sample :: "'self \<Rightarrow> int \<Rightarrow> py_error + 'r" where
  "GenerativeAdversarialNet_sample self sample_num = Inl NotImplementedError"

subsection \<open>The pretrained-model library, as parameters\<close>

text \<open>What a call of the tokenizer receives: one string or a list of strings, and the
  keyword arguments the code passes (\<^verbatim>\<open>return_tensors="pt"\<close> is the representation of
  the result as tensors).\<close>

datatype tok_input = Single string | Batch "string list"

record tok_kwargs =
  max_length :: nat
  padding :: string
  truncation :: bool

record batch_encoding =
  input_ids :: "int list list"
  attention_mask :: "int list list"

record tokenizer =
  pad_token_id :: int
  tokenizer_call :: "tok_input \<Rightarrow> tok_kwargs \<Rightarrow> batch_encoding"
  batch_decode :: "int list list \<Rightarrow> bool \<Rightarrow> pystr list"

text \<open>The network: \<open>decoder_call input_ids attention_mask decoder_input_ids\<close> returns the
  logits, \<open>decoder_generate input_ids max_length early_stopping\<close> the generated ids.\<close>

record 'l net =
  decoder_call :: "int list list \<Rightarrow> int list list \<Rightarrow> int list list \<Rightarrow> 'l list list"
  decoder_generate :: "int list list \<Rightarrow> nat \<Rightarrow> bool \<Rightarrow> int list list"

text \<open>The loaders; each may raise. The second argument of the tokenizer's loader is
  \<^verbatim>\<open>add_prefix_space\<close>.\<close>

record ('c, 'l) transformers =
  T5Tokenizer_from_pretrained :: "string \<Rightarrow> bool \<Rightarrow> py_error + tokenizer"
  T5Config_from_pretrained :: "string \<Rightarrow> py_error + 'c"
  T5ForConditionalGeneration_from_pretrained :: "string \<Rightarrow> 'c \<Rightarrow> py_error + 'l net"

text \<open>\<^verbatim>\<open>nn.CrossEntropyLoss(ignore_index=..., reduction='none')\<close>: the object keeps its two
  arguments.\<close>

record cross_entropy_loss =
  ignore_index :: int
  reduction :: string

subsection \<open>t5.py: the constructor\<close>

record ('c, 'l) T5 = generator +
  max_source_length :: nat
  max_target_length :: nat
  self_pretrained_model_path :: string
  self_tokenizer :: tokenizer
  configuration :: 'c
  decoder :: "'l net"
  padding_token_idx :: int
  loss :: cross_entropy_loss
  t5_task_text :: string

definition T5_init ::
    "('c, 'l) transformers \<Rightarrow> config \<Rightarrow> 'v dataset \<Rightarrow> py_error + ('c, 'l) T5" where
  "T5_init lib cfg ds =
     (case Seq2SeqGenerator_init cfg ds of
        Inl e \<Rightarrow> Inl e
      | Inr g \<Rightarrow>
     (case T5Tokenizer_from_pretrained lib (pretrained_model_path cfg) True of
        Inl e \<Rightarrow> Inl e
      | Inr tok \<Rightarrow>
     (case T5Config_from_pretrained lib (pretrained_model_path cfg) of
        Inl e \<Rightarrow> Inl e
      | Inr c \<Rightarrow>
     (case T5ForConditionalGeneration_from_pretrained lib (pretrained_model_path cfg) c of
        Inl e \<Rightarrow> Inl e
      | Inr n \<Rightarrow>
     (if task_type cfg = ''summarization'' then
        Inr (generator.extend g
          \<lparr> max_source_length = source_max_seq_length cfg,
            max_target_length = target_max_seq_length cfg,
            self_pretrained_model_path = pretrained_model_path cfg,
            self_tokenizer = tok,
            configuration = c,
            decoder = n,
            padding_token_idx = pad_token_id tok,
            loss = \<lparr> ignore_index = pad_token_id tok, reduction = ''none'' \<rparr>,
            t5_task_text = ''summarize: '' \<rparr>)
      else if task_type cfg = ''translation'' then
        Inr (generator.extend g
          \<lparr> max_source_length = source_max_seq_length cfg,
            max_target_length = target_max_seq_length cfg,
            self_pretrained_model_path = pretrained_model_path cfg,
            self_tokenizer = tok,
            configuration = c,
            decoder = n,
            padding_token_idx = pad_token_id tok,
            loss = \<lparr> ignore_index = pad_token_id tok, reduction = ''none'' \<rparr>,
            t5_task_text = ''translate German to English: '' \<rparr>)
      else Inl NotImplementedError)))))"

subsection \<open>Python strings\<close>

text \<open>\<^verbatim>\<open>sep.join(words)\<close>.\<close>

fun str_join :: "string \<Rightarrow> string list \<Rightarrow> string" where
  "str_join sep [] = []"
| "str_join sep [w] = w"
| "str_join sep (w # v # ws) = w @ sep @ str_join sep (v # ws)"

text \<open>The code points that \<^verbatim>\<open>str.isspace\<close> accepts, which are the separators of
  \<^verbatim>\<open>str.split()\<close> (Unicode 6.3 and later): U+0009 to U+000D, U+001C to U+0020, U+0085,
  U+00A0, U+1680, U+2000 to U+200A, U+2028, U+2029, U+202F, U+205F and U+3000.\<close>

definition isspace :: "nat \<Rightarrow> bool" where
  "isspace c =
     ((9 \<le> c \<and> c \<le> 13) \<or> (28 \<le> c \<and> c \<le> 32) \<or> c = 133 \<or> c = 160 \<or> c = 5760
      \<or> (8192 \<le> c \<and> c \<le> 8202) \<or> c = 8232 \<or> c = 8233 \<or> c = 8239 \<or> c = 8287
      \<or> c = 12288)"

text \<open>The case tables of the Unicode database are Python's, not the repository's, and
  are parameters: \<open>is_uppercase c\<close> is \<^verbatim>\<open>str.isupper\<close> of the one character \<open>c\<close>,
  \<open>to_lower_full c\<close> is the full lowercase mapping of \<open>c\<close> (one to three code points, \<open>c\<close>
  itself when it has none), and \<open>final_sigma s i\<close> tells whether position \<open>i\<close> of \<open>s\<close> is in
  the context of a final sigma.\<close>

record unicode =
  is_uppercase :: "nat \<Rightarrow> bool"
  to_lower_full :: "nat \<Rightarrow> nat list"
  final_sigma :: "pystr \<Rightarrow> nat \<Rightarrow> bool"

text \<open>\<^verbatim>\<open>str.lower\<close>, as CPython computes it: position by position, the capital sigma
  U+03A3 becomes U+03C2 in final position and U+03C3 elsewhere, every other character
  its full lowercase mapping. \<open>do_lower db s i cs\<close> lowers the rest \<open>cs\<close> of \<open>s\<close> from
  position \<open>i\<close> on.\<close>

definition lower_ucs4 :: "unicode \<Rightarrow> pystr \<Rightarrow> nat \<Rightarrow> nat \<Rightarrow> pystr" where
  "lower_ucs4 db s i c =
     (if c = 931 then [if final_sigma db s i then 962 else 963] else to_lower_full db c)"

fun do_lower :: "unicode \<Rightarrow> pystr \<Rightarrow> nat \<Rightarrow> pystr \<Rightarrow> pystr" where
  "do_lower db s i [] = []"
| "do_lower db s i (c # cs) = lower_ucs4 db s i c @ do_lower db s (Suc i) cs"

definition str_lower :: "unicode \<Rightarrow> pystr \<Rightarrow> pystr" where
  "str_lower db s = do_lower db s 0 s"

text \<open>\<^verbatim>\<open>str.split()\<close> without a separator: the maximal runs of characters that are not
  whitespace, in order. \<open>split_from w s\<close> scans \<open>s\<close> with the word \<open>w\<close> read so far.\<close>

fun split_from :: "pystr \<Rightarrow> pystr \<Rightarrow> pystr list" where
  "split_from w [] = (if w = [] then [] else [w])"
| "split_from w (c # cs) =
     (if isspace c then (if w = [] then split_from [] cs else w # split_from [] cs)
      else split_from (w @ [c]) cs)"

definition str_split :: "pystr \<Rightarrow> pystr list" where
  "str_split s = split_from [] s"

subsection \<open>Tensors\<close>

text \<open>\<^verbatim>\<open>torch.cat\<close> along dimension 0 of a list of two-dimensional tensors: it raises on
  an empty list and when the rows do not all have the same length.\<close>

definition torch_cat :: "'a list list list \<Rightarrow> py_error + 'a list list" where
  "torch_cat ts =
     (if ts = [] then Inl RuntimeError
      else if \<exists>r \<in> set (concat ts). length r \<noteq> length (hd (concat ts)) then Inl RuntimeError
      else Inr (concat ts))"

text \<open>\<^verbatim>\<open>x[:, :-1]\<close> and \<^verbatim>\<open>x[:, 1:]\<close>.\<close>

definition slice_to_last :: "'a list list \<Rightarrow> 'a list list" where
  "slice_to_last x = map butlast x"

definition slice_from_1 :: "'a list list \<Rightarrow> 'a list list" where
  "slice_from_1 x = map tl x"

text \<open>\<^verbatim>\<open>x.view(-1)\<close>, and \<^verbatim>\<open>x.view(-1, V)\<close> on logits: the rows one after the other.\<close>

definition view_flat :: "'a list list \<Rightarrow> 'a list" where
  "view_flat x = concat x"

text \<open>\<^verbatim>\<open>flat.reshape_as(ref)\<close>: the elements of \<open>flat\<close> in the rows of \<open>ref\<close>'s shape.\<close>

fun reshape_as :: "'a list \<Rightarrow> 'b list list \<Rightarrow> 'a list list" where
  "reshape_as flat [] = []"
| "reshape_as flat (r # rs) = take (length r) flat # reshape_as (drop (length r) flat) rs"

text \<open>A floating-point result: a finite value, or what a division by zero leaves.\<close>

datatype tfloat = Fin real | PInf | NInf | NaN

text \<open>The quotient of two finite values.\<close>

definition tdiv :: "real \<Rightarrow> real \<Rightarrow> tfloat" where
  "tdiv x y =
     (if y \<noteq> 0 then Fin (x / y)
      else if 0 < x then PInf
      else if x < 0 then NInf
      else NaN)"

fun tadd :: "tfloat \<Rightarrow> tfloat \<Rightarrow> tfloat" where
  "tadd (Fin a) (Fin b) = Fin (a + b)"
| "tadd NaN _ = NaN"
| "tadd _ NaN = NaN"
| "tadd PInf NInf = NaN"
| "tadd NInf PInf = NaN"
| "tadd PInf _ = PInf"
| "tadd _ PInf = PInf"
| "tadd NInf _ = NInf"
| "tadd _ NInf = NInf"

text \<open>\<^verbatim>\<open>x.mean()\<close> of a one-dimensional tensor: the sum divided by the number of
  elements; of no element it is \<open>NaN\<close>.\<close>

definition tmean :: "tfloat list \<Rightarrow> tfloat" where
  "tmean xs =
     (case foldl tadd (Fin 0) xs of
        Fin s \<Rightarrow> tdiv s (real (length xs))
      | PInf \<Rightarrow> PInf
      | NInf \<Rightarrow> NInf
      | NaN \<Rightarrow> NaN)"

text \<open>Calling the loss object on logits of shape \<open>(N, V)\<close> and targets of shape \<open>(N)\<close>,
  with \<^verbatim>\<open>reduction='none'\<close>: one value for each position, zero where the target is
  \<open>ignore_index\<close>. The cross-entropy \<open>ce\<close> of one vector of logits against one target is
  the library's.\<close>

definition CrossEntropyLoss_call ::
    "('l \<Rightarrow> int \<Rightarrow> real) \<Rightarrow> cross_entropy_loss \<Rightarrow> 'l list \<Rightarrow> int list \<Rightarrow> py_error + real list" where
  "CrossEntropyLoss_call ce l inp target =
     (if length inp \<noteq> length target then Inl ValueError
      else Inr (map (\<lambda>(x, t). if t = ignore_index l then 0 else ce x t) (zip inp target)))"

subsection \<open>t5.py: generate\<close>

text \<open>The body of the loop over the batches, up to the decoded texts of the batch.\<close>

definition T5_generate_batch_sequences :: "('c, 'l) T5 \<Rightarrow> corpus \<Rightarrow> string list" where
  "T5_generate_batch_sequences self batch_data =
     map (\<lambda>text. t5_task_text self @ str_join '' '' text) (source_text batch_data)"

definition T5_generate_batch_encoded_sequence :: "('c, 'l) T5 \<Rightarrow> corpus \<Rightarrow> int list list" where
  "T5_generate_batch_encoded_sequence self batch_data =
     (let batch_sequences = T5_generate_batch_sequences self batch_data;
          batch_inputs = tokenizer_call (self_tokenizer self) (Batch batch_sequences)
            \<lparr> max_length = max_source_length self, padding = ''max_length'',
              truncation = True \<rparr>
      in input_ids batch_inputs)"

definition T5_generate_batch_decoded_sequence :: "('c, 'l) T5 \<Rightarrow> corpus \<Rightarrow> pystr list" where
  "T5_generate_batch_decoded_sequence self batch_data =
     (let batch_encoded_sequence = T5_generate_batch_encoded_sequence self batch_data;
          batch_outputs = decoder_generate (decoder self) batch_encoded_sequence
            (max_target_length self) True
      in batch_decode (self_tokenizer self) batch_outputs True)"

definition T5_generate_batch :: "unicode \<Rightarrow> ('c, 'l) T5 \<Rightarrow> corpus \<Rightarrow> pystr list list" where
  "T5_generate_batch db self batch_data =
     (let batch_decoded_sequence = T5_generate_batch_decoded_sequence self batch_data;
          batch_decoded_text = map (\<lambda>text. str_split (str_lower db text)) batch_decoded_sequence
      in batch_decoded_text)"

text \<open>The loop: \<open>generate_corpus\<close> is extended by each batch in turn.\<close>

fun T5_generate_loop ::
    "unicode \<Rightarrow> ('c, 'l) T5 \<Rightarrow> pystr list list \<Rightarrow> corpus list \<Rightarrow> pystr list list" where
  "T5_generate_loop db self generate_corpus [] = generate_corpus"
| "T5_generate_loop db self generate_corpus (batch_data # rest) =
     T5_generate_loop db self (generate_corpus @ T5_generate_batch db self batch_data) rest"

definition T5_generate :: "unicode \<Rightarrow> ('c, 'l) T5 \<Rightarrow> corpus list \<Rightarrow> pystr list list" where
  "T5_generate db self eval_dataloader = T5_generate_loop db self [] eval_dataloader"

subsection \<open>t5.py: calculate\_ids\<close>

definition T5_calculate_ids_sequence :: "('c, 'l) T5 \<Rightarrow> string list \<Rightarrow> string" where
  "T5_calculate_ids_sequence self text = t5_task_text self @ str_join '' '' text"

fun T5_calculate_ids_loop ::
    "('c, 'l) T5 \<Rightarrow> int list list list \<Rightarrow> int list list list \<Rightarrow> string list list
       \<Rightarrow> int list list list \<times> int list list list" where
  "T5_calculate_ids_loop self ids masks [] = (ids, masks)"
| "T5_calculate_ids_loop self ids masks (text # rest) =
     (let sequence = T5_calculate_ids_sequence self text;
          inputs = tokenizer_call (self_tokenizer self) (Single sequence)
            \<lparr> max_length = max_source_length self, padding = ''max_length'',
              truncation = True \<rparr>
      in T5_calculate_ids_loop self (ids @ [input_ids inputs])
           (masks @ [attention_mask inputs]) rest)"

definition T5_calculate_ids ::
    "('c, 'l) T5 \<Rightarrow> string list list \<Rightarrow> py_error + (int list list \<times> int list list)" where
  "T5_calculate_ids self src =
     (case T5_calculate_ids_loop self [] [] src of
        (ids, masks) \<Rightarrow>
          (case torch_cat ids of
             Inl e \<Rightarrow> Inl e
           | Inr ids' \<Rightarrow>
               (case torch_cat masks of
                  Inl e \<Rightarrow> Inl e
                | Inr masks' \<Rightarrow> Inr (ids', masks'))))"

subsection \<open>t5.py: forward\<close>

text \<open>The part of \<^verbatim>\<open>forward\<close> after the ids and the logits: the loss of the batch from
  the logits and the shifted targets. \<open>T5_forward_length\<close> is the tensor \<^verbatim>\<open>length\<close>: for
  each row, the number of targets that are not the padding id.\<close>

definition T5_forward_length :: "('c, 'l) T5 \<Rightarrow> int list list \<Rightarrow> real list" where
  "T5_forward_length self decoder_target_ids =
     map (\<lambda>row. real (length (filter (\<lambda>t. t \<noteq> padding_token_idx self) row)))
       decoder_target_ids"

definition T5_forward_loss ::
    "('l \<Rightarrow> int \<Rightarrow> real) \<Rightarrow> ('c, 'l) T5 \<Rightarrow> 'l list list \<Rightarrow> int list list \<Rightarrow> py_error + tfloat" where
  "T5_forward_loss ce self token_logits decoder_target_ids =
     (case CrossEntropyLoss_call ce (loss self) (view_flat token_logits)
             (view_flat decoder_target_ids) of
        Inl e \<Rightarrow> Inl e
      | Inr loss1 \<Rightarrow>
          (let loss2 = reshape_as loss1 decoder_target_ids;
               len = T5_forward_length self decoder_target_ids;
               loss3 = map (\<lambda>(s, n). tdiv s n) (zip (map sum_list loss2) len)
           in Inr (tmean loss3)))"

definition T5_forward ::
    "('l \<Rightarrow> int \<Rightarrow> real) \<Rightarrow> ('c, 'l) T5 \<Rightarrow> corpus \<Rightarrow> py_error + tfloat" where
  "T5_forward ce self corpus =
     (case T5_calculate_ids self (source_text corpus) of
        Inl e \<Rightarrow> Inl e
      | Inr (inp_ids, attention_masks) \<Rightarrow>
     (case T5_calculate_ids self (target_text corpus) of
        Inl e \<Rightarrow> Inl e
      | Inr (target_ids, decoder_attention_masks) \<Rightarrow>
          (let decoder_input_ids = slice_to_last target_ids;
               decoder_attention_masks' = slice_to_last decoder_attention_masks;
               decoder_target_ids = slice_from_1 target_ids;
               token_logits = decoder_call (decoder self) inp_ids attention_masks
                                decoder_input_ids
           in T5_forward_loss ce self token_logits decoder_target_ids)))"

subsection \<open>The loss as the specification words it\<close>

text \<open>The loss of one sequence: the sum over the positions of the shifted target of the
  cross-entropy of the position's logits against its target, a position whose target is
  the padding id counting zero, divided by the number of positions whose target is not
  the padding id.\<close>

definition spec_sequence_loss ::
    "('l \<Rightarrow> int \<Rightarrow> real) \<Rightarrow> int \<Rightarrow> 'l list \<Rightarrow> int list \<Rightarrow> tfloat" where
  "spec_sequence_loss ce pad logits targets =
     tdiv (\<Sum>(x, t) \<leftarrow> zip logits targets. if t = pad then 0 else ce x t)
          (real (length (filter (\<lambda>t. t \<noteq> pad) targets)))"

text \<open>The loss of a batch: the mean of the losses of its sequences.\<close>

definition spec_length_normalized_loss ::
    "('l \<Rightarrow> int \<Rightarrow> real) \<Rightarrow> int \<Rightarrow> 'l list list \<Rightarrow> int list list \<Rightarrow> tfloat" where
  "spec_length_normalized_loss ce pad token_logits shifted_targets =
     tmean (map (\<lambda>(logits, targets). spec_sequence_loss ce pad logits targets)
              (zip token_logits shifted_targets))"

subsection \<open>A small instance of the library\<close>

text \<open>A tokenizer in the manner of T5's, for concrete runs: a character is the id of its
  code point plus 2, the end of the sequence is id 1, the padding is id 0; a sequence is
  cut to \<open>max_length - 1\<close> ids before the end marker and padded to \<open>max_length\<close>.\<close>

definition example_encode :: "string \<Rightarrow> nat \<Rightarrow> int list" where
  "example_encode s n =
     (let t = take (n - 1) (map (\<lambda>c. 2 + int (of_char c)) s) @ [1]
      in take n (t @ replicate (n - length t) 0))"

definition example_decode :: "bool \<Rightarrow> int list \<Rightarrow> pystr" where
  "example_decode skip ids =
     map (\<lambda>t. nat (t - 2)) (filter (\<lambda>t. \<not> skip \<or> 2 \<le> t) ids)"

definition example_tokenizer :: tokenizer where
  "example_tokenizer =
     \<lparr> pad_token_id = 0,
       tokenizer_call = (\<lambda>inp kw.
         (case inp of
            Single s \<Rightarrow>
              \<lparr> input_ids = [example_encode s (max_length kw)],
                attention_mask =
                  [map (\<lambda>t. if t = 0 then 0 else 1) (example_encode s (max_length kw))] \<rparr>
          | Batch ss \<Rightarrow>
              \<lparr> input_ids = map (\<lambda>s. example_encode s (max_length kw)) ss,
                attention_mask =
                  map (\<lambda>s. map (\<lambda>t. if t = 0 then 0 else 1) (example_encode s (max_length kw)))
                    ss \<rparr>)),
       batch_decode = (\<lambda>outs skip. map (example_decode skip) outs) \<rparr>"

text \<open>A network that echoes: a logit is the decoder's input id at the position, and
  generation returns the start of each input row. Its cross-entropy is the distance
  between the logit and the target.\<close>

definition example_net :: "int net" where
  "example_net =
     \<lparr> decoder_call = (\<lambda>inp_ids masks dec_ids. dec_ids),
       decoder_generate = (\<lambda>inp_ids n early. map (take n) inp_ids) \<rparr>"

definition example_ce :: "int \<Rightarrow> int \<Rightarrow> real" where
  "example_ce x t = real_of_int \<bar>x - t\<bar>"

definition example_lib :: "(unit, int) transformers" where
  "example_lib =
     \<lparr> T5Tokenizer_from_pretrained =
         (\<lambda>path prefix_space. if path = ''t5-small'' then Inr example_tokenizer else Inl OSError),
       T5Config_from_pretrained =
         (\<lambda>path. if path = ''t5-small'' then Inr () else Inl OSError),
       T5ForConditionalGeneration_from_pretrained =
         (\<lambda>path c. if path = ''t5-small'' then Inr example_net else Inl OSError) \<rparr>"

definition example_config :: config where
  "example_config =
     \<lparr> train_batch_size = 2, device = ''cpu'', source_max_seq_length = 14,
       target_max_seq_length = 20, pretrained_model_path = ''t5-small'',
       task_type = ''summarization'' \<rparr>"

definition example_dataset :: "string dataset" where
  "example_dataset =
     \<lparr> source_idx2token = Some [''a'', ''b'', ''c''], target_idx2token = Some [''x'', ''y''],
       idx2token = None \<rparr>"

definition example_T5 :: "(unit, int) T5" where
  "example_T5 =
     generator.extend
       \<lparr> vocab_size = None, source_vocab_size = Some 3, target_vocab_size = Some 2,
         batch_size = 2, self_device = ''cpu'' \<rparr>
       \<lparr> max_source_length = 14, max_target_length = 20,
         self_pretrained_model_path = ''t5-small'', self_tokenizer = example_tokenizer,
         configuration = (), decoder = example_net, padding_token_idx = 0,
         loss = \<lparr> ignore_index = 0, reduction = ''none'' \<rparr>,
         t5_task_text = ''summarize: '' \<rparr>"

text \<open>The entries of the Unicode database for the code points of the concrete runs: the
  code points below 256, where the uppercase letters are A to Z and U+00C0 to U+00DE
  without the multiplication sign U+00D7, each mapped to the code point 32 above it; and
  U+2102 (double-struck capital C) and U+1D400 (mathematical bold capital A), which are
  uppercase letters without a lowercase mapping. No run uses another code point.\<close>

definition example_unicode :: unicode where
  "example_unicode =
     \<lparr> is_uppercase = (\<lambda>c. (65 \<le> c \<and> c \<le> 90) \<or> (192 \<le> c \<and> c \<le> 222 \<and> c \<noteq> 215)
                              \<or> c = 8450 \<or> c = 120832),
       to_lower_full = (\<lambda>c. if (65 \<le> c \<and> c \<le> 90) \<or> (192 \<le> c \<and> c \<le> 222 \<and> c \<noteq> 215)
                              then [c + 32] else [c]),
       final_sigma = (\<lambda>s i. False) \<rparr>"

text \<open>A network whose generation returns, for each input row, the ids of the two
  characters U+1D400 and B and the end marker.\<close>

definition example_net_bold :: "int net" where
  "example_net_bold =
     \<lparr> decoder_call = (\<lambda>inp_ids masks dec_ids. dec_ids),
       decoder_generate = (\<lambda>inp_ids n early. map (\<lambda>row. take n [120834, 68, 1]) inp_ids) \<rparr>"

text \<open>A checkpoint whose tokenizer declares the end marker as its padding token: the
  padding id is the id 1 of the end marker. The attention mask is 1 on the ids before the
  padding.\<close>

definition example_encode_eos :: "string \<Rightarrow> nat \<Rightarrow> int list" where
  "example_encode_eos s n =
     (let t = take (n - 1) (map (\<lambda>c. 2 + int (of_char c)) s) @ [1]
      in take n (t @ replicate (n - length t) 1))"

definition example_mask_eos :: "string \<Rightarrow> nat \<Rightarrow> int list" where
  "example_mask_eos s n =
     (let t = take (n - 1) (map (\<lambda>c. 2 + int (of_char c)) s) @ [1]
      in take n (replicate (length t) 1 @ replicate (n - length t) 0))"

definition example_tokenizer_eos :: tokenizer where
  "example_tokenizer_eos =
     \<lparr> pad_token_id = 1,
       tokenizer_call = (\<lambda>inp kw.
         (case inp of
            Single s \<Rightarrow>
              \<lparr> input_ids = [example_encode_eos s (max_length kw)],
                attention_mask = [example_mask_eos s (max_length kw)] \<rparr>
          | Batch ss \<Rightarrow>
              \<lparr> input_ids = map (\<lambda>s. example_encode_eos s (max_length kw)) ss,
                attention_mask = map (\<lambda>s. example_mask_eos s (max_length kw)) ss \<rparr>)),
       batch_decode = (\<lambda>outs skip. map (example_decode skip) outs) \<rparr>"

definition example_lib_eos :: "(unit, int) transformers" where
  "example_lib_eos =
     \<lparr> T5Tokenizer_from_pretrained =
         (\<lambda>path prefix_space.
            if path = ''t5-eos-pad'' then Inr example_tokenizer_eos else Inl OSError),
       T5Config_from_pretrained =
         (\<lambda>path. if path = ''t5-eos-pad'' then Inr () else Inl OSError),
       T5ForConditionalGeneration_from_pretrained =
         (\<lambda>path c. if path = ''t5-eos-pad'' then Inr example_net else Inl OSError) \<rparr>"

definition example_config_eos :: config where
  "example_config_eos =
     \<lparr> train_batch_size = 2, device = ''cpu'', source_max_seq_length = 2,
       target_max_seq_length = 20, pretrained_model_path = ''t5-eos-pad'',
       task_type = ''summarization'' \<rparr>"

definition example_T5_eos :: "(unit, int) T5" where
  "example_T5_eos =
     generator.extend
       \<lparr> vocab_size = None, source_vocab_size = Some 3, target_vocab_size = Some 2,
         batch_size = 2, self_device = ''cpu'' \<rparr>
       \<lparr> max_source_length = 2, max_target_length = 20,
         self_pretrained_model_path = ''t5-eos-pad'', self_tokenizer = example_tokenizer_eos,
         configuration = (), decoder = example_net, padding_token_idx = 1,
         loss = \<lparr> ignore_index = 1, reduction = ''none'' \<rparr>,
         t5_task_text = ''summarize: '' \<rparr>"

section \<open>Properties\<close>

subsection \<open>Facts about the constructor\<close>

lemma example_T5_constructed:
  "T5_init example_lib example_config example_dataset = Inr example_T5"
  by (simp add: T5_init_def Seq2SeqGenerator_init_def getattr_def example_lib_def
      example_config_def example_dataset_def example_T5_def example_tokenizer_def
      numeral_2_eq_2 numeral_3_eq_3)

lemma T5_init_Inr_cases:
  assumes "T5_init lib cfg ds = Inr self"
  shows "(task_type cfg = ''summarization'' \<and> t5_task_text self = ''summarize: '')
       \<or> (task_type cfg = ''translation'' \<and> t5_task_text self = ''translate German to English: '')"
  using assms
  by (auto simp: T5_init_def generator.defs split: sum.splits if_splits)

lemma T5_init_fields:
  assumes "T5_init lib cfg ds = Inr self"
  shows "ignore_index (loss self) = padding_token_idx self"
    and "padding_token_idx self = pad_token_id (self_tokenizer self)"
    and "max_source_length self = source_max_seq_length cfg"
    and "max_target_length self = target_max_seq_length cfg"
  using assms
  by (auto simp: T5_init_def generator.defs split: sum.splits if_splits)

text \<open>The loop of \<^verbatim>\<open>calculate_ids\<close> appends, for each text in order, the tokenizer's
  result on the prefixed text.\<close>

lemma T5_calculate_ids_loop_map:
  "T5_calculate_ids_loop self ids masks src =
     (ids @ map (\<lambda>text. input_ids (tokenizer_call (self_tokenizer self)
                 (Single (t5_task_text self @ str_join '' '' text))
                 \<lparr> max_length = max_source_length self, padding = ''max_length'',
                   truncation = True \<rparr>)) src,
      masks @ map (\<lambda>text. attention_mask (tokenizer_call (self_tokenizer self)
                 (Single (t5_task_text self @ str_join '' '' text))
                 \<lparr> max_length = max_source_length self, padding = ''max_length'',
                   truncation = True \<rparr>)) src)"
  by (induction src arbitrary: ids masks) (simp_all add: T5_calculate_ids_sequence_def Let_def)

text \<open>\<^verbatim>\<open>calculate_ids\<close> is the concatenation of the tokenizer's results on the prefixed
  texts, and raises when \<^verbatim>\<open>torch.cat\<close> does.\<close>

lemma T5_calculate_ids_unfold:
  "T5_calculate_ids self src =
     (case torch_cat (map (\<lambda>words. input_ids (tokenizer_call (self_tokenizer self)
                 (Single (t5_task_text self @ str_join '' '' words))
                 \<lparr> max_length = max_source_length self, padding = ''max_length'',
                   truncation = True \<rparr>)) src) of
        Inl e \<Rightarrow> Inl e
      | Inr ids \<Rightarrow>
          (case torch_cat (map (\<lambda>words. attention_mask (tokenizer_call (self_tokenizer self)
                 (Single (t5_task_text self @ str_join '' '' words))
                 \<lparr> max_length = max_source_length self, padding = ''max_length'',
                   truncation = True \<rparr>)) src) of
             Inl e \<Rightarrow> Inl e
           | Inr masks \<Rightarrow> Inr (ids, masks)))"
  by (simp add: T5_calculate_ids_def T5_calculate_ids_loop_map)

text \<open>The loop of \<^verbatim>\<open>generate\<close> returns the texts of the batches one after the other.\<close>

lemma T5_generate_loop_concat:
  "T5_generate_loop db self acc dl = acc @ concat (map (T5_generate_batch db self) dl)"
  by (induction dl arbitrary: acc) simp_all

lemma T5_generate_concat:
  "T5_generate db self dl = concat (map (T5_generate_batch db self) dl)"
  by (simp add: T5_generate_def T5_generate_loop_concat)

lemma T5_generate_batch_unfold:
  "T5_generate_batch db self b =
     map (\<lambda>d. str_split (str_lower db d))
       (batch_decode (self_tokenizer self)
          (decoder_generate (decoder self) (T5_generate_batch_encoded_sequence self b)
             (max_target_length self) True) True)"
  by (simp add: T5_generate_batch_def T5_generate_batch_decoded_sequence_def Let_def)

lemma example_source_ids:
  "T5_calculate_ids example_T5 [[''ab''], [''d'']] =
     Inr ([[117, 119, 111, 111, 99, 116, 107, 124, 103, 60, 34, 99, 100, 1],
           [117, 119, 111, 111, 99, 116, 107, 124, 103, 60, 34, 102, 1, 0]],
          [[1, 1, 1, 1, 1, 1, 1, 1, 1, 1, 1, 1, 1, 1],
           [1, 1, 1, 1, 1, 1, 1, 1, 1, 1, 1, 1, 1, 0]])"
  by (simp add: T5_calculate_ids_def T5_calculate_ids_loop_map torch_cat_def example_T5_def
      example_tokenizer_def example_encode_def generator.defs T5.defs Let_def)

lemma example_target_ids:
  "T5_calculate_ids example_T5 [[''ab''], [''c'']] =
     Inr ([[117, 119, 111, 111, 99, 116, 107, 124, 103, 60, 34, 99, 100, 1],
           [117, 119, 111, 111, 99, 116, 107, 124, 103, 60, 34, 101, 1, 0]],
          [[1, 1, 1, 1, 1, 1, 1, 1, 1, 1, 1, 1, 1, 1],
           [1, 1, 1, 1, 1, 1, 1, 1, 1, 1, 1, 1, 1, 0]])"
  by (simp add: T5_calculate_ids_def T5_calculate_ids_loop_map torch_cat_def example_T5_def
      example_tokenizer_def example_encode_def generator.defs T5.defs Let_def)

text \<open>The definitions that a concrete run of \<^verbatim>\<open>generate\<close> unfolds.\<close>

lemmas example_run_defs =
  T5_generate_def T5_generate_batch_def T5_generate_batch_decoded_sequence_def
  T5_generate_batch_encoded_sequence_def T5_generate_batch_sequences_def
  example_T5_def example_tokenizer_def example_net_def example_net_bold_def
  example_encode_def example_decode_def generator.defs T5.defs Let_def
  str_split_def str_lower_def lower_ucs4_def example_unicode_def isspace_def

lemma example_generate:
  "T5_generate example_unicode example_T5
     [\<lparr> source_text = [[''AB''], [''d'']], target_text = [] \<rparr>,
      \<lparr> source_text = [[''C'']], target_text = [] \<rparr>] =
   [[[115, 117, 109, 109, 97, 114, 105, 122, 101, 58], [97, 98]],
    [[115, 117, 109, 109, 97, 114, 105, 122, 101, 58], [100]],
    [[115, 117, 109, 109, 97, 114, 105, 122, 101, 58], [99]]]"
  by (simp add: example_run_defs)


subsection \<open>The abstract methods\<close>

text \<open>
  Claim C6. Whatever the object and the arguments, the methods \<^verbatim>\<open>calculate_loss\<close>,
  \<^verbatim>\<open>generate\<close> and \<^verbatim>\<open>calculate_nll_test\<close> of \<^verbatim>\<open>AbstractModel\<close> and the methods
  \<^verbatim>\<open>calculate_g_train_loss\<close>, \<^verbatim>\<open>calculate_d_train_loss\<close>,
  \<^verbatim>\<open>calculate_g_adversarial_loss\<close> and \<^verbatim>\<open>sample\<close> of \<^verbatim>\<open>GenerativeAdversarialNet\<close>
  raise \<^verbatim>\<open>NotImplementedError\<close>.
\<close>

theorem abstract_methods_raise:
  "AbstractModel_calculate_loss self1 corpus1 = Inl NotImplementedError
   \<and> AbstractModel_generate self2 corpus2 = Inl NotImplementedError
   \<and> AbstractModel_calculate_nll_test self3 eval_data = Inl NotImplementedError
   \<and> GenerativeAdversarialNet_calculate_g_train_loss self4 corpus4 = Inl NotImplementedError
   \<and> GenerativeAdversarialNet_calculate_d_train_loss self5 real_data fake_data
       = Inl NotImplementedError
   \<and> GenerativeAdversarialNet_calculate_g_adversarial_loss self6 = Inl NotImplementedError
   \<and> GenerativeAdversarialNet_sample self7 sample_num = Inl NotImplementedError"
  by (simp add: AbstractModel_calculate_loss_def AbstractModel_generate_def
      AbstractModel_calculate_nll_test_def GenerativeAdversarialNet_calculate_g_train_loss_def
      GenerativeAdversarialNet_calculate_d_train_loss_def
      GenerativeAdversarialNet_calculate_g_adversarial_loss_def
      GenerativeAdversarialNet_sample_def)

subsection \<open>The base constructors\<close>

text \<open>
  Claim C5. The base constructors only initialise attributes. For a dataset with the
  attributes \<^verbatim>\<open>source_idx2token\<close> and \<^verbatim>\<open>target_idx2token\<close>,
  \<^verbatim>\<open>Seq2SeqGenerator.__init__\<close> sets \<^verbatim>\<open>source_vocab_size\<close> and \<^verbatim>\<open>target_vocab_size\<close> to
  the lengths of the two vocabularies; for a dataset without \<^verbatim>\<open>source_idx2token\<close> it sets
  \<^verbatim>\<open>vocab_size\<close> to the length of \<^verbatim>\<open>idx2token\<close>. \<^verbatim>\<open>UnconditionalGenerator.__init__\<close> sets
  \<^verbatim>\<open>vocab_size\<close> to the length of \<^verbatim>\<open>idx2token\<close>. All set \<^verbatim>\<open>batch_size\<close> to
  \<^verbatim>\<open>config['train_batch_size']\<close> and \<^verbatim>\<open>device\<close> to \<^verbatim>\<open>config['device']\<close>, and set nothing
  else.
\<close>

theorem base_constructors_initialise:
  "(source_idx2token ds = Some s \<and> target_idx2token ds = Some t \<longrightarrow>
      Seq2SeqGenerator_init cfg ds =
        Inr \<lparr> vocab_size = None, source_vocab_size = Some (length s),
              target_vocab_size = Some (length t), batch_size = train_batch_size cfg,
              self_device = device cfg \<rparr>)
   \<and> (source_idx2token ds = None \<and> idx2token ds = Some v \<longrightarrow>
      Seq2SeqGenerator_init cfg ds =
        Inr \<lparr> vocab_size = Some (length v), source_vocab_size = None,
              target_vocab_size = None, batch_size = train_batch_size cfg,
              self_device = device cfg \<rparr>)
   \<and> (idx2token ds = Some v \<longrightarrow>
      UnconditionalGenerator_init cfg ds =
        Inr \<lparr> vocab_size = Some (length v), source_vocab_size = None,
              target_vocab_size = None, batch_size = train_batch_size cfg,
              self_device = device cfg \<rparr>)"
  by (simp add: Seq2SeqGenerator_init_def UnconditionalGenerator_init_def getattr_def)

theorem base_constructors_initialise_witness:
  "source_idx2token example_dataset = Some [''a'', ''b'', ''c'']
   \<and> target_idx2token example_dataset = Some [''x'', ''y'']
   \<and> Seq2SeqGenerator_init example_config example_dataset =
       Inr \<lparr> vocab_size = None, source_vocab_size = Some 3, target_vocab_size = Some 2,
             batch_size = 2, self_device = ''cpu'' \<rparr>
   \<and> Seq2SeqGenerator_init example_config
         \<lparr> source_idx2token = None, target_idx2token = None,
           idx2token = Some [''a'', ''b''] \<rparr> =
       Inr \<lparr> vocab_size = Some 2, source_vocab_size = None, target_vocab_size = None,
             batch_size = 2, self_device = ''cpu'' \<rparr>
   \<and> UnconditionalGenerator_init example_config
         \<lparr> source_idx2token = None, target_idx2token = None,
           idx2token = Some [''a'', ''b''] \<rparr> =
       Inr \<lparr> vocab_size = Some 2, source_vocab_size = None, target_vocab_size = None,
             batch_size = 2, self_device = ''cpu'' \<rparr>"
proof -
  have p: "source_idx2token example_dataset = Some [''a'', ''b'', ''c'']
      \<and> target_idx2token example_dataset = Some [''x'', ''y'']"
    by (simp add: example_dataset_def)
  have q: "source_idx2token \<lparr> source_idx2token = None, target_idx2token = None,
             idx2token = Some [''a'', ''b''] \<rparr> = None
      \<and> idx2token \<lparr> source_idx2token = None, target_idx2token = None,
             idx2token = Some [''a'', ''b''] \<rparr> = Some [''a'', ''b'']"
    by simp
  have c: "train_batch_size example_config = 2 \<and> device example_config = ''cpu''"
    by (simp add: example_config_def)
  show ?thesis
    using p q c
      base_constructors_initialise [of example_dataset "[''a'', ''b'', ''c'']" "[''x'', ''y'']"
        example_config "[]"]
      base_constructors_initialise [of "\<lparr> source_idx2token = None, target_idx2token = None,
           idx2token = Some [''a'', ''b''] \<rparr>" "[]" "[]" example_config "[''a'', ''b'']"]
    by (simp add: numeral_2_eq_2 numeral_3_eq_3)
qed

subsection \<open>The constructor of T5\<close>

text \<open>
  Claim C2, as amended. When the base constructor and the three loads of the pretrained
  tokenizer, configuration and network return, \<^verbatim>\<open>T5.__init__\<close> raises
  \<^verbatim>\<open>NotImplementedError\<close> if and only if \<^verbatim>\<open>config['task_type']\<close> is neither
  \<^verbatim>\<open>"summarization"\<close> nor \<^verbatim>\<open>"translation"\<close>, and it returns the constructed model if and
  only if the task type is one of the two.
\<close>

theorem T5_init_not_implemented:
  assumes "Seq2SeqGenerator_init cfg ds = Inr g"
    and "T5Tokenizer_from_pretrained lib (pretrained_model_path cfg) True = Inr tok"
    and "T5Config_from_pretrained lib (pretrained_model_path cfg) = Inr c"
    and "T5ForConditionalGeneration_from_pretrained lib (pretrained_model_path cfg) c = Inr n"
  shows "(T5_init lib cfg ds = Inl NotImplementedError \<longleftrightarrow>
            task_type cfg \<noteq> ''summarization'' \<and> task_type cfg \<noteq> ''translation'')
       \<and> ((\<exists>self. T5_init lib cfg ds = Inr self) \<longleftrightarrow>
            task_type cfg = ''summarization'' \<or> task_type cfg = ''translation'')"
  using assms by (simp add: T5_init_def)

theorem T5_init_not_implemented_witness:
  "Seq2SeqGenerator_init example_config example_dataset =
     Inr \<lparr> vocab_size = None, source_vocab_size = Some 3, target_vocab_size = Some 2,
           batch_size = 2, self_device = ''cpu'' \<rparr>
   \<and> T5Tokenizer_from_pretrained example_lib (pretrained_model_path example_config) True
       = Inr example_tokenizer
   \<and> T5Config_from_pretrained example_lib (pretrained_model_path example_config) = Inr ()
   \<and> T5ForConditionalGeneration_from_pretrained example_lib
       (pretrained_model_path example_config) () = Inr example_net
   \<and> T5_init example_lib example_config example_dataset \<noteq> Inl NotImplementedError
   \<and> (\<exists>self. T5_init example_lib example_config example_dataset = Inr self)
   \<and> T5_init example_lib (example_config\<lparr>task_type := ''dialogue''\<rparr>) example_dataset
       = Inl NotImplementedError"
proof -
  have g: "Seq2SeqGenerator_init example_config example_dataset =
     Inr \<lparr> vocab_size = None, source_vocab_size = Some 3, target_vocab_size = Some 2,
           batch_size = 2, self_device = ''cpu'' \<rparr>"
    by (simp add: Seq2SeqGenerator_init_def getattr_def example_config_def example_dataset_def
        numeral_2_eq_2 numeral_3_eq_3)
  have t: "T5Tokenizer_from_pretrained example_lib (pretrained_model_path example_config) True
       = Inr example_tokenizer"
    by (simp add: example_lib_def example_config_def)
  have c: "T5Config_from_pretrained example_lib (pretrained_model_path example_config) = Inr ()"
    by (simp add: example_lib_def example_config_def)
  have n: "T5ForConditionalGeneration_from_pretrained example_lib
       (pretrained_model_path example_config) () = Inr example_net"
    by (simp add: example_lib_def example_config_def)
  have g': "Seq2SeqGenerator_init (example_config\<lparr>task_type := ''dialogue''\<rparr>) example_dataset =
     Inr \<lparr> vocab_size = None, source_vocab_size = Some 3, target_vocab_size = Some 2,
           batch_size = 2, self_device = ''cpu'' \<rparr>"
    by (simp add: Seq2SeqGenerator_init_def getattr_def example_config_def example_dataset_def
        numeral_2_eq_2 numeral_3_eq_3)
  have t': "T5Tokenizer_from_pretrained example_lib
       (pretrained_model_path (example_config\<lparr>task_type := ''dialogue''\<rparr>)) True
       = Inr example_tokenizer"
    by (simp add: example_lib_def example_config_def)
  have c': "T5Config_from_pretrained example_lib
       (pretrained_model_path (example_config\<lparr>task_type := ''dialogue''\<rparr>)) = Inr ()"
    by (simp add: example_lib_def example_config_def)
  have n': "T5ForConditionalGeneration_from_pretrained example_lib
       (pretrained_model_path (example_config\<lparr>task_type := ''dialogue''\<rparr>)) () = Inr example_net"
    by (simp add: example_lib_def example_config_def)
  have s: "task_type example_config = ''summarization''"
    by (simp add: example_config_def)
  have d: "task_type (example_config\<lparr>task_type := ''dialogue''\<rparr>) = ''dialogue''"
    by simp
  show ?thesis
    using T5_init_not_implemented [OF g t c n] T5_init_not_implemented [OF g' t' c' n'] g t c n
    by (simp only: s d) simp
qed

text \<open>
  Claim C2 as stated fails when a step before the check raises: with a checkpoint path
  the library cannot load and an unsupported task type, the constructor raises the
  library's error and not \<^verbatim>\<open>NotImplementedError\<close>.
\<close>

theorem T5_init_not_implemented_counterexample:
  "\<not> (T5_init example_lib
         (example_config\<lparr>pretrained_model_path := ''no-such-checkpoint'',
                         task_type := ''dialogue''\<rparr>) example_dataset
        = Inl NotImplementedError
      \<longleftrightarrow> task_type (example_config\<lparr>pretrained_model_path := ''no-such-checkpoint'',
                                    task_type := ''dialogue''\<rparr>) \<noteq> ''summarization''
        \<and> task_type (example_config\<lparr>pretrained_model_path := ''no-such-checkpoint'',
                                    task_type := ''dialogue''\<rparr>) \<noteq> ''translation'')
   \<and> T5_init example_lib
         (example_config\<lparr>pretrained_model_path := ''no-such-checkpoint'',
                         task_type := ''dialogue''\<rparr>) example_dataset
        = Inl OSError"
  by (simp add: T5_init_def Seq2SeqGenerator_init_def getattr_def example_lib_def
      example_config_def example_dataset_def)

text \<open>
  Claim C3. The prefix of a constructed model is \<^verbatim>\<open>"summarize: "\<close> for the task type
  \<^verbatim>\<open>"summarization"\<close> and \<^verbatim>\<open>"translate German to English: "\<close> for \<^verbatim>\<open>"translation"\<close>, and the
  task type is one of the two. \<^verbatim>\<open>generate\<close> returns, batch after batch, the lowercased and
  split decodings of what the network generates from the tokenizer's ids of the batch's
  source texts, each text being this prefix followed by its words joined by single
  spaces; \<^verbatim>\<open>calculate_ids\<close> returns the concatenation of the tokenizer's ids and masks of
  each text, again this prefix followed by the words joined by single spaces.
\<close>

theorem T5_task_prefix:
  assumes "T5_init lib cfg ds = Inr self"
  shows "(task_type cfg = ''summarization'' \<longrightarrow> t5_task_text self = ''summarize: '')
       \<and> (task_type cfg = ''translation'' \<longrightarrow>
            t5_task_text self = ''translate German to English: '')
       \<and> (task_type cfg = ''summarization'' \<or> task_type cfg = ''translation'')
       \<and> T5_generate db self eval_dataloader =
            concat (map (\<lambda>batch_data.
              map (\<lambda>d. str_split (str_lower db d))
                (batch_decode (self_tokenizer self)
                   (decoder_generate (decoder self)
                      (input_ids (tokenizer_call (self_tokenizer self)
                         (Batch (map (\<lambda>words. t5_task_text self @ str_join '' '' words)
                                   (source_text batch_data)))
                         \<lparr> max_length = max_source_length self, padding = ''max_length'',
                           truncation = True \<rparr>))
                      (max_target_length self) True) True)) eval_dataloader)
       \<and> T5_calculate_ids self src =
            (case torch_cat (map (\<lambda>words. input_ids (tokenizer_call (self_tokenizer self)
                      (Single (t5_task_text self @ str_join '' '' words))
                      \<lparr> max_length = max_source_length self, padding = ''max_length'',
                        truncation = True \<rparr>)) src) of
               Inl e \<Rightarrow> Inl e
             | Inr ids \<Rightarrow>
                 (case torch_cat (map (\<lambda>words. attention_mask (tokenizer_call (self_tokenizer self)
                      (Single (t5_task_text self @ str_join '' '' words))
                      \<lparr> max_length = max_source_length self, padding = ''max_length'',
                        truncation = True \<rparr>)) src) of
                    Inl e \<Rightarrow> Inl e
                  | Inr masks \<Rightarrow> Inr (ids, masks)))"
proof -
  have p1: "task_type cfg = ''summarization'' \<longrightarrow> t5_task_text self = ''summarize: ''"
    using T5_init_Inr_cases [OF assms] by auto
  have p2: "task_type cfg = ''translation'' \<longrightarrow>
            t5_task_text self = ''translate German to English: ''"
    using T5_init_Inr_cases [OF assms] by auto
  have p3: "task_type cfg = ''summarization'' \<or> task_type cfg = ''translation''"
    using T5_init_Inr_cases [OF assms] by auto
  have g: "T5_generate db self eval_dataloader =
            concat (map (\<lambda>batch_data.
              map (\<lambda>d. str_split (str_lower db d))
                (batch_decode (self_tokenizer self)
                   (decoder_generate (decoder self)
                      (input_ids (tokenizer_call (self_tokenizer self)
                         (Batch (map (\<lambda>words. t5_task_text self @ str_join '' '' words)
                                   (source_text batch_data)))
                         \<lparr> max_length = max_source_length self, padding = ''max_length'',
                           truncation = True \<rparr>))
                      (max_target_length self) True) True)) eval_dataloader)"
  proof -
    have "T5_generate_batch db self =
            (\<lambda>batch_data.
              map (\<lambda>d. str_split (str_lower db d))
                (batch_decode (self_tokenizer self)
                   (decoder_generate (decoder self)
                      (input_ids (tokenizer_call (self_tokenizer self)
                         (Batch (map (\<lambda>words. t5_task_text self @ str_join '' '' words)
                                   (source_text batch_data)))
                         \<lparr> max_length = max_source_length self, padding = ''max_length'',
                           truncation = True \<rparr>))
                      (max_target_length self) True) True))"
      by (rule ext)
        (simp add: T5_generate_batch_unfold T5_generate_batch_encoded_sequence_def
          T5_generate_batch_sequences_def Let_def)
    then show ?thesis
      by (simp only: T5_generate_concat)
  qed
  show ?thesis
    by (intro conjI p1 p2 p3 g T5_calculate_ids_unfold)
qed

theorem T5_task_prefix_witness:
  "T5_init example_lib example_config example_dataset = Inr example_T5
   \<and> task_type example_config = ''summarization''
   \<and> t5_task_text example_T5 = ''summarize: ''
   \<and> T5_calculate_ids example_T5 [[''ab''], [''d'']] =
       Inr ([[117, 119, 111, 111, 99, 116, 107, 124, 103, 60, 34, 99, 100, 1],
             [117, 119, 111, 111, 99, 116, 107, 124, 103, 60, 34, 102, 1, 0]],
            [[1, 1, 1, 1, 1, 1, 1, 1, 1, 1, 1, 1, 1, 1],
             [1, 1, 1, 1, 1, 1, 1, 1, 1, 1, 1, 1, 1, 0]])
   \<and> T5_generate example_unicode example_T5
        [\<lparr> source_text = [[''AB''], [''d'']], target_text = [] \<rparr>,
         \<lparr> source_text = [[''C'']], target_text = [] \<rparr>] =
       [[[115, 117, 109, 109, 97, 114, 105, 122, 101, 58], [97, 98]],
        [[115, 117, 109, 109, 97, 114, 105, 122, 101, 58], [100]],
        [[115, 117, 109, 109, 97, 114, 105, 122, 101, 58], [99]]]"
proof -
  let ?dl = "[\<lparr> source_text = [[''AB''], [''d'']], target_text = [] \<rparr>,
         \<lparr> source_text = [[''C'']], target_text = [] \<rparr>]"
  have i: "T5_init example_lib example_config example_dataset = Inr example_T5"
    by (rule example_T5_constructed)
  have s: "task_type example_config = ''summarization''"
    by (simp add: example_config_def)
  note f = T5_task_prefix [OF i, of example_unicode ?dl "[[''ab''], [''d'']]"]
  have t: "t5_task_text example_T5 = ''summarize: ''"
    using conjunct1 [OF f] s by simp
  have c: "T5_calculate_ids example_T5 [[''ab''], [''d'']] =
       Inr ([[117, 119, 111, 111, 99, 116, 107, 124, 103, 60, 34, 99, 100, 1],
             [117, 119, 111, 111, 99, 116, 107, 124, 103, 60, 34, 102, 1, 0]],
            [[1, 1, 1, 1, 1, 1, 1, 1, 1, 1, 1, 1, 1, 1],
             [1, 1, 1, 1, 1, 1, 1, 1, 1, 1, 1, 1, 1, 0]])"
    by (rule example_source_ids)
  show ?thesis
    by (intro conjI i s t c example_generate)
qed

subsection \<open>The teacher-forcing shift\<close>

lemma butlast_take_row: "length row = L \<Longrightarrow> butlast row = take (L - 1) row"
  by (simp add: butlast_conv_take)

lemma tl_drop_row: "tl row = drop 1 row"
  by (cases row) simp_all

lemma T5_forward_unfold:
  assumes "T5_calculate_ids self (source_text corpus) = Inr (inp_ids, masks)"
    and "T5_calculate_ids self (target_text corpus) = Inr (target_ids, dmasks)"
  shows "T5_forward ce self corpus =
           T5_forward_loss ce self
             (decoder_call (decoder self) inp_ids masks (slice_to_last target_ids))
             (slice_from_1 target_ids)"
  using assms by (simp add: T5_forward_def Let_def)

text \<open>
  Claim C8. For target ids whose rows all have the padded length \<open>L\<close>, \<^verbatim>\<open>forward\<close>
  feeds the decoder the first \<open>L - 1\<close> ids of each row (\<^verbatim>\<open>target_ids[:, :-1]\<close>) and takes
  the loss against the last \<open>L - 1\<close> ids (\<^verbatim>\<open>target_ids[:, 1:]\<close>): at position \<open>i\<close> the
  decoder's input is target token \<open>i\<close> and the loss target is target token \<open>i + 1\<close>.
\<close>

theorem T5_forward_shift:
  assumes "T5_calculate_ids self (source_text corpus) = Inr (inp_ids, masks)"
    and "T5_calculate_ids self (target_text corpus) = Inr (target_ids, dmasks)"
    and "\<forall>row \<in> set target_ids. length row = L"
  shows "T5_forward ce self corpus =
           T5_forward_loss ce self
             (decoder_call (decoder self) inp_ids masks (map (take (L - 1)) target_ids))
             (map (drop 1) target_ids)
       \<and> slice_to_last target_ids = map (take (L - 1)) target_ids
       \<and> slice_from_1 target_ids = map (drop 1) target_ids
       \<and> (\<forall>b < length target_ids.
            length (slice_to_last target_ids ! b) = L - 1
          \<and> length (slice_from_1 target_ids ! b) = L - 1
          \<and> (\<forall>i < L - 1.
                slice_to_last target_ids ! b ! i = target_ids ! b ! i
              \<and> slice_from_1 target_ids ! b ! i = target_ids ! b ! (i + 1)))"
proof -
  have a: "slice_to_last target_ids = map (take (L - 1)) target_ids"
    using assms(3) by (simp add: slice_to_last_def butlast_take_row)
  have b: "slice_from_1 target_ids = map (drop 1) target_ids"
    by (simp add: slice_from_1_def tl_drop_row)
  have c: "T5_forward ce self corpus =
           T5_forward_loss ce self
             (decoder_call (decoder self) inp_ids masks (map (take (L - 1)) target_ids))
             (map (drop 1) target_ids)"
    using T5_forward_unfold [OF assms(1,2)] by (simp only: a b)
  have d: "\<forall>b < length target_ids.
            length (slice_to_last target_ids ! b) = L - 1
          \<and> length (slice_from_1 target_ids ! b) = L - 1
          \<and> (\<forall>i < L - 1.
                slice_to_last target_ids ! b ! i = target_ids ! b ! i
              \<and> slice_from_1 target_ids ! b ! i = target_ids ! b ! (i + 1))"
  proof (intro allI impI)
    fix b assume "b < length target_ids"
    then have "length (target_ids ! b) = L"
      using assms(3) by simp
    then show "length (slice_to_last target_ids ! b) = L - 1
          \<and> length (slice_from_1 target_ids ! b) = L - 1
          \<and> (\<forall>i < L - 1.
                slice_to_last target_ids ! b ! i = target_ids ! b ! i
              \<and> slice_from_1 target_ids ! b ! i = target_ids ! b ! (i + 1))"
      using \<open>b < length target_ids\<close> by (simp add: a b)
  qed
  show ?thesis using a b c d by blast
qed

theorem T5_forward_shift_witness:
  "T5_calculate_ids example_T5
      (source_text \<lparr> source_text = [[''ab''], [''d'']], target_text = [[''ab''], [''c'']] \<rparr>) =
     Inr ([[117, 119, 111, 111, 99, 116, 107, 124, 103, 60, 34, 99, 100, 1],
           [117, 119, 111, 111, 99, 116, 107, 124, 103, 60, 34, 102, 1, 0]],
          [[1, 1, 1, 1, 1, 1, 1, 1, 1, 1, 1, 1, 1, 1],
           [1, 1, 1, 1, 1, 1, 1, 1, 1, 1, 1, 1, 1, 0]])
   \<and> T5_calculate_ids example_T5
      (target_text \<lparr> source_text = [[''ab''], [''d'']], target_text = [[''ab''], [''c'']] \<rparr>) =
     Inr ([[117, 119, 111, 111, 99, 116, 107, 124, 103, 60, 34, 99, 100, 1],
           [117, 119, 111, 111, 99, 116, 107, 124, 103, 60, 34, 101, 1, 0]],
          [[1, 1, 1, 1, 1, 1, 1, 1, 1, 1, 1, 1, 1, 1],
           [1, 1, 1, 1, 1, 1, 1, 1, 1, 1, 1, 1, 1, 0]])
   \<and> slice_to_last [[117, 119, 111, 111, 99, 116, 107, 124, 103, 60, 34, 99, 100, 1],
                     [117, 119, 111, 111, 99, 116, 107, 124, 103, 60, 34, 101, 1, 0 :: int]] =
       [[117, 119, 111, 111, 99, 116, 107, 124, 103, 60, 34, 99, 100],
        [117, 119, 111, 111, 99, 116, 107, 124, 103, 60, 34, 101, 1]]
   \<and> slice_from_1 [[117, 119, 111, 111, 99, 116, 107, 124, 103, 60, 34, 99, 100, 1],
                    [117, 119, 111, 111, 99, 116, 107, 124, 103, 60, 34, 101, 1, 0 :: int]] =
       [[119, 111, 111, 99, 116, 107, 124, 103, 60, 34, 99, 100, 1],
        [119, 111, 111, 99, 116, 107, 124, 103, 60, 34, 101, 1, 0]]"
proof -
  let ?c = "\<lparr> source_text = [[''ab''], [''d'']], target_text = [[''ab''], [''c'']] \<rparr>"
  let ?t = "[[117, 119, 111, 111, 99, 116, 107, 124, 103, 60, 34, 99, 100, 1],
             [117, 119, 111, 111, 99, 116, 107, 124, 103, 60, 34, 101, 1, 0 :: int]]"
  have s: "T5_calculate_ids example_T5 (source_text ?c) =
     Inr ([[117, 119, 111, 111, 99, 116, 107, 124, 103, 60, 34, 99, 100, 1],
           [117, 119, 111, 111, 99, 116, 107, 124, 103, 60, 34, 102, 1, 0]],
          [[1, 1, 1, 1, 1, 1, 1, 1, 1, 1, 1, 1, 1, 1],
           [1, 1, 1, 1, 1, 1, 1, 1, 1, 1, 1, 1, 1, 0]])"
    using example_source_ids by simp
  have t: "T5_calculate_ids example_T5 (target_text ?c) =
     Inr (?t, [[1, 1, 1, 1, 1, 1, 1, 1, 1, 1, 1, 1, 1, 1],
               [1, 1, 1, 1, 1, 1, 1, 1, 1, 1, 1, 1, 1, 0]])"
    using example_target_ids by simp
  have l: "\<forall>row \<in> set ?t. length row = 14"
    by simp
  show ?thesis
    using T5_forward_shift [OF s t l, of example_ce] s t
    by simp
qed

subsection \<open>The corpus that generate returns\<close>

lemma nth_concat_offset:
  "k < length xss \<Longrightarrow> i < length (xss ! k) \<Longrightarrow>
     concat xss ! (sum_list (map length (take k xss)) + i) = xss ! k ! i"
proof (induction xss arbitrary: k)
  case Nil
  then show ?case by simp
next
  case (Cons xs xss)
  show ?case
  proof (cases k)
    case 0
    with Cons.prems show ?thesis by (simp add: nth_append)
  next
    case (Suc j)
    with Cons.prems have "concat xss ! (sum_list (map length (take j xss)) + i) = xss ! j ! i"
      using Cons.IH [of j] by simp
    with Suc show ?thesis by (simp add: nth_append add.assoc)
  qed
qed

text \<open>
  Claim C10. When the library keeps the batch dimension (the tokenizer returns one row
  for each string of a batch, generation one sequence for each row, decoding one string
  for each sequence), the corpus that \<^verbatim>\<open>generate\<close> returns is the decoded texts of the
  batches one after the other in the order of the loader; each batch contributes one
  entry for each of its source texts, so the corpus has as many entries as there are
  source texts, and the entry of text \<open>i\<close> of batch \<open>k\<close> stands after the entries of all
  texts of the batches before \<open>k\<close> and of the texts before \<open>i\<close> in batch \<open>k\<close>.
\<close>

theorem T5_generate_one_entry_per_text:
  assumes "\<forall>seqs kw. length (input_ids (tokenizer_call (self_tokenizer self) (Batch seqs) kw))
             = length seqs"
    and "\<forall>ids n early. length (decoder_generate (decoder self) ids n early) = length ids"
    and "\<forall>outs skip. length (batch_decode (self_tokenizer self) outs skip) = length outs"
  shows "T5_generate db self eval_dataloader = concat (map (T5_generate_batch db self) eval_dataloader)
       \<and> (\<forall>b. length (T5_generate_batch db self b) = length (source_text b))
       \<and> length (T5_generate db self eval_dataloader) =
           sum_list (map (\<lambda>b. length (source_text b)) eval_dataloader)
       \<and> (\<forall>k i. k < length eval_dataloader \<and> i < length (source_text (eval_dataloader ! k)) \<longrightarrow>
            T5_generate db self eval_dataloader
              ! (sum_list (map (\<lambda>b. length (source_text b)) (take k eval_dataloader)) + i)
            = T5_generate_batch db self (eval_dataloader ! k) ! i)"
proof -
  have len: "length (T5_generate_batch db self b) = length (source_text b)" for b
    using assms
    by (simp add: T5_generate_batch_unfold T5_generate_batch_encoded_sequence_def
        T5_generate_batch_sequences_def Let_def)
  have lens: "map length (map (T5_generate_batch db self) dl) = map (\<lambda>b. length (source_text b)) dl"
    for dl
    by (simp add: len)
  have total: "length (T5_generate db self eval_dataloader) =
           sum_list (map (\<lambda>b. length (source_text b)) eval_dataloader)"
    by (simp add: T5_generate_concat length_concat len o_def)
  have pos: "T5_generate db self eval_dataloader
              ! (sum_list (map (\<lambda>b. length (source_text b)) (take k eval_dataloader)) + i)
            = T5_generate_batch db self (eval_dataloader ! k) ! i"
    if "k < length eval_dataloader" "i < length (source_text (eval_dataloader ! k))" for k i
  proof -
    have "concat (map (T5_generate_batch db self) eval_dataloader)
            ! (sum_list (map length (take k (map (T5_generate_batch db self) eval_dataloader))) + i)
          = map (T5_generate_batch db self) eval_dataloader ! k ! i"
      using that by (intro nth_concat_offset) (simp_all add: len)
    then show ?thesis
      using that by (simp add: T5_generate_concat take_map lens len o_def)
  qed
  show ?thesis
    using len total pos by (simp add: T5_generate_concat)
qed

lemma example_library_keeps_batch:
  "(\<forall>seqs kw. length (input_ids (tokenizer_call (self_tokenizer example_T5) (Batch seqs) kw))
             = length seqs)
   \<and> (\<forall>ids n early. length (decoder_generate (decoder example_T5) ids n early) = length ids)
   \<and> (\<forall>outs skip. length (batch_decode (self_tokenizer example_T5) outs skip) = length outs)"
  by (simp add: example_T5_def example_tokenizer_def example_net_def generator.defs T5.defs)

theorem T5_generate_one_entry_per_text_witness:
  "(\<forall>seqs kw. length (input_ids (tokenizer_call (self_tokenizer example_T5) (Batch seqs) kw))
             = length seqs)
   \<and> (\<forall>ids n early. length (decoder_generate (decoder example_T5) ids n early) = length ids)
   \<and> (\<forall>outs skip. length (batch_decode (self_tokenizer example_T5) outs skip) = length outs)
   \<and> length (T5_generate example_unicode example_T5
        [\<lparr> source_text = [[''AB''], [''d'']], target_text = [] \<rparr>,
         \<lparr> source_text = [[''C'']], target_text = [] \<rparr>]) = 3
   \<and> T5_generate example_unicode example_T5
        [\<lparr> source_text = [[''AB''], [''d'']], target_text = [] \<rparr>,
         \<lparr> source_text = [[''C'']], target_text = [] \<rparr>] ! 2
      = T5_generate_batch example_unicode example_T5 \<lparr> source_text = [[''C'']], target_text = [] \<rparr> ! 0"
proof -
  let ?dl = "[\<lparr> source_text = [[''AB''], [''d'']], target_text = [] \<rparr>,
         \<lparr> source_text = [[''C'']], target_text = [] \<rparr>]"
  note k = example_library_keeps_batch
  have a: "\<forall>seqs kw. length (input_ids (tokenizer_call (self_tokenizer example_T5) (Batch seqs) kw))
             = length seqs"
    using k by blast
  have b: "\<forall>ids n early. length (decoder_generate (decoder example_T5) ids n early) = length ids"
    using k by blast
  have c: "\<forall>outs skip. length (batch_decode (self_tokenizer example_T5) outs skip) = length outs"
    using k by blast
  have t: "length (T5_generate example_unicode example_T5 ?dl) = 3"
    using T5_generate_one_entry_per_text [OF a b c, of example_unicode ?dl] by simp
  have p: "T5_generate example_unicode example_T5 ?dl ! 2
      = T5_generate_batch example_unicode example_T5 \<lparr> source_text = [[''C'']], target_text = [] \<rparr> ! 0"
  proof -
    have "1 < length ?dl \<and> 0 < length (source_text (?dl ! 1))" by simp
    then have "T5_generate example_unicode example_T5 ?dl
        ! (sum_list (map (\<lambda>b. length (source_text b)) (take 1 ?dl)) + 0)
        = T5_generate_batch example_unicode example_T5 (?dl ! 1) ! 0"
      using T5_generate_one_entry_per_text [OF a b c, of example_unicode ?dl] by blast
    then show ?thesis by (simp add: numeral_2_eq_2)
  qed
  show ?thesis using a b c t p by blast
qed

subsection \<open>Lowercasing and splitting\<close>








subsection \<open>The tokenizer's input in generate and calculate\_ids\<close>

lemma T5_calculate_ids_Inr:
  assumes "T5_calculate_ids self src = Inr (ids, masks)"
  shows "ids = concat (map (\<lambda>words. input_ids (tokenizer_call (self_tokenizer self)
                 (Single (t5_task_text self @ str_join '' '' words))
                 \<lparr> max_length = max_source_length self, padding = ''max_length'',
                   truncation = True \<rparr>)) src)"
    and "src \<noteq> []"
    and "\<forall>r \<in> set ids. length r = length (hd ids)"
  using assms
  by (auto simp: T5_calculate_ids_def T5_calculate_ids_loop_map torch_cat_def
      split: if_splits sum.splits)

text \<open>
  Claim C7. For the source texts of a batch, \<^verbatim>\<open>generate\<close> and \<^verbatim>\<open>calculate_ids\<close> build the
  same strings (the prefix followed by the words joined by single spaces) and call the
  tokenizer with the same keyword arguments (\<^verbatim>\<open>max_length\<close> the maximal source length,
  padding to \<^verbatim>\<open>max_length\<close>, truncation enabled), \<^verbatim>\<open>generate\<close> on the list of the strings
  and \<^verbatim>\<open>calculate_ids\<close> on each string. When the tokenizer encodes a list of strings as
  it encodes each of them, the input ids of the two paths are equal.
\<close>

theorem T5_same_tokenizer_input:
  assumes "\<forall>seqs. input_ids (tokenizer_call (self_tokenizer self) (Batch seqs)
               \<lparr> max_length = max_source_length self, padding = ''max_length'',
                 truncation = True \<rparr>)
             = concat (map (\<lambda>s. input_ids (tokenizer_call (self_tokenizer self) (Single s)
                 \<lparr> max_length = max_source_length self, padding = ''max_length'',
                   truncation = True \<rparr>)) seqs)"
    and "T5_calculate_ids self (source_text batch_data) = Inr (ids, masks)"
  shows "T5_generate_batch_sequences self batch_data =
           map (T5_calculate_ids_sequence self) (source_text batch_data)
       \<and> T5_calculate_ids_sequence self words = t5_task_text self @ str_join '' '' words
       \<and> T5_generate_batch_encoded_sequence self batch_data =
           input_ids (tokenizer_call (self_tokenizer self)
             (Batch (map (T5_calculate_ids_sequence self) (source_text batch_data)))
             \<lparr> max_length = max_source_length self, padding = ''max_length'',
               truncation = True \<rparr>)
       \<and> fst (T5_calculate_ids_loop self [] [] (source_text batch_data)) =
           map (\<lambda>words. input_ids (tokenizer_call (self_tokenizer self)
                  (Single (T5_calculate_ids_sequence self words))
                  \<lparr> max_length = max_source_length self, padding = ''max_length'',
                    truncation = True \<rparr>)) (source_text batch_data)
       \<and> T5_generate_batch_encoded_sequence self batch_data = ids"
proof -
  have s: "T5_generate_batch_sequences self batch_data =
           map (T5_calculate_ids_sequence self) (source_text batch_data)"
    by (simp add: T5_generate_batch_sequences_def T5_calculate_ids_sequence_def)
  have e: "T5_generate_batch_encoded_sequence self batch_data =
           input_ids (tokenizer_call (self_tokenizer self)
             (Batch (map (T5_calculate_ids_sequence self) (source_text batch_data)))
             \<lparr> max_length = max_source_length self, padding = ''max_length'',
               truncation = True \<rparr>)"
    by (simp add: T5_generate_batch_encoded_sequence_def Let_def s)
  have l: "fst (T5_calculate_ids_loop self [] [] (source_text batch_data)) =
           map (\<lambda>words. input_ids (tokenizer_call (self_tokenizer self)
                  (Single (T5_calculate_ids_sequence self words))
                  \<lparr> max_length = max_source_length self, padding = ''max_length'',
                    truncation = True \<rparr>)) (source_text batch_data)"
    by (simp add: T5_calculate_ids_loop_map T5_calculate_ids_sequence_def)
  have "T5_generate_batch_encoded_sequence self batch_data =
          concat (map (\<lambda>words. input_ids (tokenizer_call (self_tokenizer self)
                 (Single (t5_task_text self @ str_join '' '' words))
                 \<lparr> max_length = max_source_length self, padding = ''max_length'',
                   truncation = True \<rparr>)) (source_text batch_data))"
    using assms(1) by (simp add: e T5_calculate_ids_sequence_def map_map o_def)
  then have i: "T5_generate_batch_encoded_sequence self batch_data = ids"
    using T5_calculate_ids_Inr(1) [OF assms(2)] by simp
  show ?thesis
    using s e l i by (simp add: T5_calculate_ids_sequence_def)
qed

lemma example_tokenizer_batch:
  "input_ids (tokenizer_call (self_tokenizer example_T5) (Batch seqs) kw)
     = concat (map (\<lambda>s. input_ids (tokenizer_call (self_tokenizer example_T5) (Single s) kw)) seqs)"
  by (induction seqs)
    (simp_all add: example_T5_def example_tokenizer_def generator.defs T5.defs)

theorem T5_same_tokenizer_input_witness:
  "(\<forall>seqs. input_ids (tokenizer_call (self_tokenizer example_T5) (Batch seqs)
               \<lparr> max_length = max_source_length example_T5, padding = ''max_length'',
                 truncation = True \<rparr>)
             = concat (map (\<lambda>s. input_ids (tokenizer_call (self_tokenizer example_T5) (Single s)
                 \<lparr> max_length = max_source_length example_T5, padding = ''max_length'',
                   truncation = True \<rparr>)) seqs))
   \<and> T5_calculate_ids example_T5
        (source_text \<lparr> source_text = [[''ab''], [''d'']], target_text = [] \<rparr>) =
       Inr ([[117, 119, 111, 111, 99, 116, 107, 124, 103, 60, 34, 99, 100, 1],
             [117, 119, 111, 111, 99, 116, 107, 124, 103, 60, 34, 102, 1, 0]],
            [[1, 1, 1, 1, 1, 1, 1, 1, 1, 1, 1, 1, 1, 1],
             [1, 1, 1, 1, 1, 1, 1, 1, 1, 1, 1, 1, 1, 0]])
   \<and> T5_generate_batch_encoded_sequence example_T5
        \<lparr> source_text = [[''ab''], [''d'']], target_text = [] \<rparr> =
       [[117, 119, 111, 111, 99, 116, 107, 124, 103, 60, 34, 99, 100, 1],
        [117, 119, 111, 111, 99, 116, 107, 124, 103, 60, 34, 102, 1, 0]]"
proof -
  have b: "\<forall>seqs. input_ids (tokenizer_call (self_tokenizer example_T5) (Batch seqs)
               \<lparr> max_length = max_source_length example_T5, padding = ''max_length'',
                 truncation = True \<rparr>)
             = concat (map (\<lambda>s. input_ids (tokenizer_call (self_tokenizer example_T5) (Single s)
                 \<lparr> max_length = max_source_length example_T5, padding = ''max_length'',
                   truncation = True \<rparr>)) seqs)"
    using example_tokenizer_batch by blast
  have c: "T5_calculate_ids example_T5
        (source_text \<lparr> source_text = [[''ab''], [''d'']], target_text = [] \<rparr>) =
       Inr ([[117, 119, 111, 111, 99, 116, 107, 124, 103, 60, 34, 99, 100, 1],
             [117, 119, 111, 111, 99, 116, 107, 124, 103, 60, 34, 102, 1, 0]],
            [[1, 1, 1, 1, 1, 1, 1, 1, 1, 1, 1, 1, 1, 1],
             [1, 1, 1, 1, 1, 1, 1, 1, 1, 1, 1, 1, 1, 0]])"
    using example_source_ids by simp
  show ?thesis
    using T5_same_tokenizer_input [OF b c] b c by blast
qed

subsection \<open>The loss of forward\<close>

lemma concat_same_length:
  "map length A = map length B \<Longrightarrow> length (concat A) = length (concat B)"
  by (simp add: length_concat)

lemma reshape_as_map_zip_concat:
  assumes "map length A = map length B"
  shows "reshape_as (map f (zip (concat A) (concat B))) B =
           map (\<lambda>(a, b). map f (zip a b)) (zip A B)"
proof -
  have "length A = length B"
    using assms by (rule map_eq_imp_length_eq)
  then show ?thesis
    using assms
  proof (induction A B rule: list_induct2)
    case Nil
    then show ?case by simp
  next
    case (Cons a A b B)
    then have l: "length a = length b" and r: "map length A = map length B"
      by simp_all
    have "reshape_as (map f (zip (concat A) (concat B))) B =
           map (\<lambda>(a, b). map f (zip a b)) (zip A B)"
      using Cons.IH [OF r] .
    with l show ?case by simp
  qed
qed

lemma rows_div:
  "length A = length B \<Longrightarrow>
     map (\<lambda>p. tdiv (fst p) (snd p)) (zip (map g (zip A B)) (map h B)) =
     map (\<lambda>p. tdiv (g p) (h (snd p))) (zip A B)"
  by (induction A B rule: list_induct2) simp_all

lemma T5_forward_loss_rows:
  assumes "map length token_logits = map length decoder_target_ids"
  shows "T5_forward_loss ce self token_logits decoder_target_ids =
           Inr (tmean (map (\<lambda>(logits, targets).
                  tdiv (\<Sum>(x, t) \<leftarrow> zip logits targets.
                          if t = ignore_index (loss self) then 0 else ce x t)
                       (real (length (filter (\<lambda>t. t \<noteq> padding_token_idx self) targets))))
                (zip token_logits decoder_target_ids)))"
proof -
  have n: "length token_logits = length decoder_target_ids"
    using assms by (rule map_eq_imp_length_eq)
  have c: "CrossEntropyLoss_call ce (loss self) (view_flat token_logits)
             (view_flat decoder_target_ids) =
           Inr (map (\<lambda>(x, t). if t = ignore_index (loss self) then 0 else ce x t)
                  (zip (concat token_logits) (concat decoder_target_ids)))"
    using concat_same_length [OF assms] by (simp add: CrossEntropyLoss_call_def view_flat_def)
  show ?thesis
    by (simp add: T5_forward_loss_def c Let_def reshape_as_map_zip_concat [OF assms]
        T5_forward_length_def split_def o_def rows_div [OF n])
qed

lemma T5_forward_rows:
  assumes "T5_init lib cfg ds = Inr self"
    and "T5_calculate_ids self (source_text corpus) = Inr (inp_ids, masks)"
    and "T5_calculate_ids self (target_text corpus) = Inr (target_ids, dmasks)"
    and "map length (decoder_call (decoder self) inp_ids masks (slice_to_last target_ids))
           = map length (slice_from_1 target_ids)"
  shows "T5_forward ce self corpus =
           Inr (spec_length_normalized_loss ce (padding_token_idx self)
                  (decoder_call (decoder self) inp_ids masks (slice_to_last target_ids))
                  (slice_from_1 target_ids))"
  using T5_init_fields(1) [OF assms(1)]
  by (simp add: T5_forward_unfold [OF assms(2,3)] T5_forward_loss_rows [OF assms(4)]
      spec_length_normalized_loss_def spec_sequence_loss_def)

text \<open>
  Claim C1. For a model the constructor returned and a batch whose ids
  \<^verbatim>\<open>calculate_ids\<close> computes, the decoder returning one vector of logits for each position
  of its input, \<^verbatim>\<open>forward\<close> returns the length-normalized cross-entropy of the
  specification: for each sequence the sum of the cross-entropy over the positions of the
  shifted target, the positions whose target is the padding id counting zero, divided by
  the number of positions whose target is not the padding id; and of these values the
  mean over the batch. The code computes it on the flattened tensors and reshapes.
\<close>

theorem T5_forward_length_normalized:
  assumes "T5_init lib cfg ds = Inr self"
    and "T5_calculate_ids self (source_text corpus) = Inr (inp_ids, masks)"
    and "T5_calculate_ids self (target_text corpus) = Inr (target_ids, dmasks)"
    and "map length (decoder_call (decoder self) inp_ids masks (slice_to_last target_ids))
           = map length (slice_from_1 target_ids)"
  shows "T5_forward ce self corpus =
           Inr (spec_length_normalized_loss ce (pad_token_id (self_tokenizer self))
                  (decoder_call (decoder self) inp_ids masks (slice_to_last target_ids))
                  (slice_from_1 target_ids))"
  using T5_forward_rows [OF assms] T5_init_fields(2) [OF assms(1)] by simp

lemma example_forward_value:
  "T5_forward example_ce example_T5
     \<lparr> source_text = [[''ab''], [''d'']], target_text = [[''ab''], [''c'']] \<rparr> =
   Inr (Fin (4013 / 156))"
  by code_simp

theorem T5_forward_length_normalized_witness:
  "T5_init example_lib example_config example_dataset = Inr example_T5
   \<and> T5_calculate_ids example_T5
      (source_text \<lparr> source_text = [[''ab''], [''d'']], target_text = [[''ab''], [''c'']] \<rparr>) =
     Inr ([[117, 119, 111, 111, 99, 116, 107, 124, 103, 60, 34, 99, 100, 1],
           [117, 119, 111, 111, 99, 116, 107, 124, 103, 60, 34, 102, 1, 0]],
          [[1, 1, 1, 1, 1, 1, 1, 1, 1, 1, 1, 1, 1, 1],
           [1, 1, 1, 1, 1, 1, 1, 1, 1, 1, 1, 1, 1, 0]])
   \<and> T5_calculate_ids example_T5
      (target_text \<lparr> source_text = [[''ab''], [''d'']], target_text = [[''ab''], [''c'']] \<rparr>) =
     Inr ([[117, 119, 111, 111, 99, 116, 107, 124, 103, 60, 34, 99, 100, 1],
           [117, 119, 111, 111, 99, 116, 107, 124, 103, 60, 34, 101, 1, 0]],
          [[1, 1, 1, 1, 1, 1, 1, 1, 1, 1, 1, 1, 1, 1],
           [1, 1, 1, 1, 1, 1, 1, 1, 1, 1, 1, 1, 1, 0]])
   \<and> spec_length_normalized_loss example_ce (pad_token_id (self_tokenizer example_T5))
        [[117, 119, 111, 111, 99, 116, 107, 124, 103, 60, 34, 99, 100],
         [117, 119, 111, 111, 99, 116, 107, 124, 103, 60, 34, 101, 1]]
        [[119, 111, 111, 99, 116, 107, 124, 103, 60, 34, 99, 100, 1],
         [119, 111, 111, 99, 116, 107, 124, 103, 60, 34, 101, 1, 0]]
      = Fin (4013 / 156)"
proof -
  let ?c = "\<lparr> source_text = [[''ab''], [''d'']], target_text = [[''ab''], [''c'']] \<rparr>"
  let ?s = "[[117, 119, 111, 111, 99, 116, 107, 124, 103, 60, 34, 99, 100, 1],
             [117, 119, 111, 111, 99, 116, 107, 124, 103, 60, 34, 102, 1, 0 :: int]]"
  let ?t = "[[117, 119, 111, 111, 99, 116, 107, 124, 103, 60, 34, 99, 100, 1],
             [117, 119, 111, 111, 99, 116, 107, 124, 103, 60, 34, 101, 1, 0 :: int]]"
  let ?m = "[[1, 1, 1, 1, 1, 1, 1, 1, 1, 1, 1, 1, 1, 1],
             [1, 1, 1, 1, 1, 1, 1, 1, 1, 1, 1, 1, 1, 0 :: int]]"
  have i: "T5_init example_lib example_config example_dataset = Inr example_T5"
    by (rule example_T5_constructed)
  have s: "T5_calculate_ids example_T5 (source_text ?c) = Inr (?s, ?m)"
    using example_source_ids by simp
  have t: "T5_calculate_ids example_T5 (target_text ?c) = Inr (?t, ?m)"
    using example_target_ids by simp
  have d: "decoder_call (decoder example_T5) ?s ?m (slice_to_last ?t) = slice_to_last ?t"
    by (simp add: example_T5_def example_net_def generator.defs T5.defs)
  have h: "map length (decoder_call (decoder example_T5) ?s ?m (slice_to_last ?t))
             = map length (slice_from_1 ?t)"
    by (simp only: d) (simp add: slice_to_last_def slice_from_1_def)
  have "T5_forward example_ce example_T5 ?c =
           Inr (spec_length_normalized_loss example_ce (pad_token_id (self_tokenizer example_T5))
                  (slice_to_last ?t) (slice_from_1 ?t))"
    using T5_forward_length_normalized [OF i s t h, of example_ce] by (simp only: d)
  then have "spec_length_normalized_loss example_ce (pad_token_id (self_tokenizer example_T5))
                  (slice_to_last ?t) (slice_from_1 ?t) = Fin (4013 / 156)"
    by (simp only: example_forward_value sum.inject)
  then show ?thesis
    using i s t by (simp add: slice_to_last_def slice_from_1_def)
qed

subsection \<open>The normalizer of forward\<close>

lemma tadd_NaN_right: "tadd x NaN = NaN"
  by (cases x) simp_all

lemma foldl_tadd_NaN: "foldl tadd NaN xs = NaN"
  by (induction xs) simp_all

lemma foldl_tadd_has_NaN: "NaN \<in> set xs \<Longrightarrow> foldl tadd a xs = NaN"
proof (induction xs arbitrary: a)
  case Nil
  then show ?case by simp
next
  case (Cons x xs)
  show ?case
  proof (cases "x = NaN")
    case True
    then show ?thesis by (simp add: tadd_NaN_right foldl_tadd_NaN)
  next
    case False
    with Cons.prems have "NaN \<in> set xs" by simp
    then show ?thesis using Cons.IH by simp
  qed
qed

lemma tmean_has_NaN: "NaN \<in> set xs \<Longrightarrow> tmean xs = NaN"
  by (simp add: tmean_def foldl_tadd_has_NaN)

lemma foldl_tadd_Fin:
  "\<forall>x \<in> set xs. \<exists>v. x = Fin v \<Longrightarrow> \<exists>s. foldl tadd (Fin a) xs = Fin s"
proof (induction xs arbitrary: a)
  case Nil
  then show ?case by simp
next
  case (Cons x xs)
  then obtain v where "x = Fin v" by auto
  moreover have "\<exists>s. foldl tadd (Fin (a + v)) xs = Fin s"
    using Cons.IH Cons.prems by simp
  ultimately show ?case by simp
qed

lemma tmean_all_Fin:
  assumes "xs \<noteq> []" and "\<forall>x \<in> set xs. \<exists>v. x = Fin v"
  shows "\<exists>v. tmean xs = Fin v"
proof -
  obtain s where "foldl tadd (Fin 0) xs = Fin s"
    using foldl_tadd_Fin [OF assms(2)] by blast
  with assms(1) show ?thesis
    by (simp add: tmean_def tdiv_def)
qed

lemma sum_list_map_zero: "\<forall>p \<in> set ps. f p = (0::real) \<Longrightarrow> sum_list (map f ps) = 0"
  by (induction ps) simp_all

lemma sum_all_pad:
  "\<forall>t \<in> set targets. t = pad \<Longrightarrow>
     (\<Sum>(x, t) \<leftarrow> zip logits targets. if t = pad then 0 else ce x t) = (0::real)"
proof -
  assume a: "\<forall>t \<in> set targets. t = pad"
  have "\<forall>p \<in> set (zip logits targets). (case p of (x, t) \<Rightarrow> if t = pad then 0 else ce x t) = (0::real)"
    using a by (auto dest: set_zip_rightD)
  then show ?thesis
    by (rule sum_list_map_zero)
qed

lemma filter_non_pad_empty:
  "(length (filter (\<lambda>t. t \<noteq> pad) row) = 0) = (\<forall>t \<in> set row. t = pad)"
  by (auto simp: filter_empty_conv)

lemma spec_sequence_loss_all_pad:
  "\<forall>t \<in> set targets. t = pad \<Longrightarrow> spec_sequence_loss ce pad logits targets = NaN"
  by (simp add: spec_sequence_loss_def sum_all_pad tdiv_def filter_empty_conv)

lemma spec_sequence_loss_Fin_iff:
  "(\<exists>v. spec_sequence_loss ce pad logits targets = Fin v) = (\<exists>t \<in> set targets. t \<noteq> pad)"
proof (cases "\<forall>t \<in> set targets. t = pad")
  case True
  then show ?thesis by (auto simp: spec_sequence_loss_all_pad)
next
  case False
  then have "filter (\<lambda>t. t \<noteq> pad) targets \<noteq> []"
    by (simp add: filter_empty_conv)
  with False show ?thesis
    by (auto simp: spec_sequence_loss_def tdiv_def)
qed

lemma spec_loss_NaN:
  assumes "length token_logits = length shifted"
    and "row \<in> set shifted" and "\<forall>t \<in> set row. t = pad"
  shows "spec_length_normalized_loss ce pad token_logits shifted = NaN"
proof -
  from assms(2) obtain b where b: "b < length shifted" "shifted ! b = row"
    by (auto simp: in_set_conv_nth)
  then have "(token_logits ! b, row) \<in> set (zip token_logits shifted)"
    using assms(1) by (auto simp: in_set_conv_nth)
  then have "spec_sequence_loss ce pad (token_logits ! b) row
      \<in> set (map (\<lambda>(logits, targets). spec_sequence_loss ce pad logits targets)
               (zip token_logits shifted))"
    by force
  then have "NaN \<in> set (map (\<lambda>(logits, targets). spec_sequence_loss ce pad logits targets)
               (zip token_logits shifted))"
    using assms(3) by (simp only: spec_sequence_loss_all_pad)
  then show ?thesis
    unfolding spec_length_normalized_loss_def by (rule tmean_has_NaN)
qed

lemma spec_loss_Fin:
  assumes "length token_logits = length shifted" and "shifted \<noteq> []"
    and "\<forall>row \<in> set shifted. \<exists>t \<in> set row. t \<noteq> pad"
  shows "\<exists>v. spec_length_normalized_loss ce pad token_logits shifted = Fin v"
proof -
  have "\<forall>x \<in> set (map (\<lambda>(logits, targets). spec_sequence_loss ce pad logits targets)
               (zip token_logits shifted)). \<exists>v. x = Fin v"
  proof
    fix x
    assume "x \<in> set (map (\<lambda>(logits, targets). spec_sequence_loss ce pad logits targets)
               (zip token_logits shifted))"
    then obtain lg tg where p: "(lg, tg) \<in> set (zip token_logits shifted)"
      and x: "x = spec_sequence_loss ce pad lg tg"
      by auto
    from p have "tg \<in> set shifted" by (rule set_zip_rightD)
    with assms(3) have "\<exists>t \<in> set tg. t \<noteq> pad" by blast
    then show "\<exists>v. x = Fin v"
      using spec_sequence_loss_Fin_iff [of ce pad lg tg] x by simp
  qed
  moreover have "map (\<lambda>(logits, targets). spec_sequence_loss ce pad logits targets)
               (zip token_logits shifted) \<noteq> []"
    using assms(1,2) by (cases token_logits; cases shifted) simp_all
  ultimately show ?thesis
    unfolding spec_length_normalized_loss_def by (intro tmean_all_Fin)
qed

text \<open>
  Claim C9. The normalizer of a sequence is zero exactly when every id of its shifted
  target is the padding id. For a model the constructor returned, on a non-empty batch
  whose ids \<^verbatim>\<open>calculate_ids\<close> computes, \<^verbatim>\<open>forward\<close> returns a finite loss exactly when
  every shifted target has an id that is not the padding id; when some shifted target is
  all padding, its sum is zero, the division is zero by zero, and \<^verbatim>\<open>forward\<close> returns
  \<open>NaN\<close>. The instance after the theorem is such an input: the checkpoint's tokenizer
  pads with the end marker and the maximal source length is 2, so each target is its
  first id followed by the end marker, and the shifted target is the end marker alone,
  which is the padding id.
\<close>

theorem T5_forward_division_by_zero:
  assumes "T5_init lib cfg ds = Inr self"
    and "T5_calculate_ids self (source_text corpus) = Inr (inp_ids, masks)"
    and "T5_calculate_ids self (target_text corpus) = Inr (target_ids, dmasks)"
    and "map length (decoder_call (decoder self) inp_ids masks (slice_to_last target_ids))
           = map length (slice_from_1 target_ids)"
    and "target_ids \<noteq> []"
  shows "(\<forall>b < length target_ids.
            (T5_forward_length self (slice_from_1 target_ids) ! b = 0)
              = (\<forall>t \<in> set (slice_from_1 target_ids ! b). t = padding_token_idx self))
       \<and> ((\<exists>v. T5_forward ce self corpus = Inr (Fin v))
            = (\<forall>row \<in> set (slice_from_1 target_ids). \<exists>t \<in> set row. t \<noteq> padding_token_idx self))
       \<and> ((\<exists>row \<in> set (slice_from_1 target_ids). \<forall>t \<in> set row. t = padding_token_idx self)
            \<longrightarrow> T5_forward ce self corpus = Inr NaN)"
proof -
  let ?shifted = "slice_from_1 target_ids"
  let ?logits = "decoder_call (decoder self) inp_ids masks (slice_to_last target_ids)"
  let ?pad = "padding_token_idx self"
  have f: "T5_forward ce self corpus = Inr (spec_length_normalized_loss ce ?pad ?logits ?shifted)"
    using T5_forward_rows [OF assms(1-4)] .
  have n: "length ?logits = length ?shifted"
    using assms(4) by (rule map_eq_imp_length_eq)
  have ne: "?shifted \<noteq> []"
    using assms(5) by (simp add: slice_from_1_def)
  have a: "\<forall>b < length target_ids.
            (T5_forward_length self ?shifted ! b = 0) = (\<forall>t \<in> set (?shifted ! b). t = ?pad)"
    by (simp add: T5_forward_length_def slice_from_1_def filter_empty_conv)
  have c: "T5_forward ce self corpus = Inr NaN"
    if "\<exists>row \<in> set ?shifted. \<forall>t \<in> set row. t = ?pad"
    using that spec_loss_NaN [OF n] f by auto
  have b: "(\<exists>v. T5_forward ce self corpus = Inr (Fin v))
            = (\<forall>row \<in> set ?shifted. \<exists>t \<in> set row. t \<noteq> ?pad)"
  proof
    assume "\<exists>v. T5_forward ce self corpus = Inr (Fin v)"
    then have "T5_forward ce self corpus \<noteq> Inr NaN" by auto
    with c show "\<forall>row \<in> set ?shifted. \<exists>t \<in> set row. t \<noteq> ?pad" by blast
  next
    assume "\<forall>row \<in> set ?shifted. \<exists>t \<in> set row. t \<noteq> ?pad"
    then show "\<exists>v. T5_forward ce self corpus = Inr (Fin v)"
      using spec_loss_Fin [OF n ne] f by simp
  qed
  show ?thesis using a b c by blast
qed

lemma example_eos_constructed:
  "T5_init example_lib_eos example_config_eos example_dataset = Inr example_T5_eos"
  by (simp add: T5_init_def Seq2SeqGenerator_init_def getattr_def example_lib_eos_def
      example_config_eos_def example_dataset_def example_T5_eos_def example_tokenizer_eos_def
      numeral_2_eq_2 numeral_3_eq_3)

lemma example_eos_ids:
  "T5_calculate_ids example_T5_eos [ws, vs] = Inr ([[117, 1], [117, 1]], [[1, 1], [1, 1]])"
  by (simp add: T5_calculate_ids_def T5_calculate_ids_loop_map torch_cat_def example_T5_eos_def
      example_tokenizer_eos_def example_encode_eos_def example_mask_eos_def
      generator.defs T5.defs Let_def numeral_2_eq_2)

theorem T5_forward_division_by_zero_witness:
  "T5_init example_lib_eos example_config_eos example_dataset = Inr example_T5_eos
   \<and> T5_calculate_ids example_T5_eos
        (source_text \<lparr> source_text = [[''ab''], [''d'']], target_text = [[''ab''], [''c'']] \<rparr>)
      = Inr ([[117, 1], [117, 1]], [[1, 1], [1, 1]])
   \<and> T5_calculate_ids example_T5_eos
        (target_text \<lparr> source_text = [[''ab''], [''d'']], target_text = [[''ab''], [''c'']] \<rparr>)
      = Inr ([[117, 1], [117, 1]], [[1, 1], [1, 1]])
   \<and> slice_to_last [[117, 1], [117, 1 :: int]] = [[117], [117]]
   \<and> slice_from_1 [[117, 1], [117, 1 :: int]] = [[1], [1]]
   \<and> padding_token_idx example_T5_eos = 1
   \<and> T5_forward_length example_T5_eos (slice_from_1 [[117, 1], [117, 1]]) ! 0 = 0
   \<and> T5_forward example_ce example_T5_eos
        \<lparr> source_text = [[''ab''], [''d'']], target_text = [[''ab''], [''c'']] \<rparr>
      = Inr NaN"
proof -
  let ?m = "example_T5_eos"
  let ?c = "\<lparr> source_text = [[''ab''], [''d'']], target_text = [[''ab''], [''c'']] \<rparr>"
  let ?t = "[[117, 1], [117, 1 :: int]]"
  let ?k = "[[1, 1], [1, 1 :: int]]"
  note i = example_eos_constructed
  have s: "T5_calculate_ids ?m (source_text ?c) = Inr (?t, ?k)"
    using example_eos_ids by simp
  have t: "T5_calculate_ids ?m (target_text ?c) = Inr (?t, ?k)"
    using example_eos_ids by simp
  have h: "map length (decoder_call (decoder ?m) ?t ?k (slice_to_last ?t))
             = map length (slice_from_1 ?t)"
    by (simp add: example_T5_eos_def example_net_def generator.defs T5.defs
        slice_to_last_def slice_from_1_def)
  have ne: "?t \<noteq> []" by simp
  have sl: "slice_to_last ?t = [[117], [117]]"
    by (simp add: slice_to_last_def)
  have sh: "slice_from_1 ?t = [[1], [1]]"
    by (simp add: slice_from_1_def)
  have pd: "padding_token_idx ?m = 1"
    by (simp add: example_T5_eos_def generator.defs T5.defs)
  have ex: "\<exists>row \<in> set (slice_from_1 ?t). \<forall>t \<in> set row. t = padding_token_idx ?m"
    by (simp add: sh pd)
  note dz = T5_forward_division_by_zero [OF i s t h ne, of example_ce]
  have z: "T5_forward_length ?m (slice_from_1 ?t) ! 0 = 0"
    using dz by (simp add: sh pd)
  have n: "T5_forward example_ce ?m ?c = Inr NaN"
    using dz ex by blast
  show ?thesis
    using i s t sl sh pd z n by blast
qed

end
